theory Spec2Isabelle
  imports Complex_Main
begin

section \<open>JavaScript strings\<close>

text \<open>
  A JavaScript string is a sequence of UTF-16 code units. The model uses \<open>string\<close>
  (a list of 8-bit characters), that is, texts whose code units are all below 256
  (Latin-1). \<open>length\<close> is then the \<open>.length\<close> of the source.
\<close>

text \<open>\<open>String.prototype.startsWith\<close>.\<close>

fun startsWith :: "string \<Rightarrow> string \<Rightarrow> bool" where
  "startsWith s [] = True"
| "startsWith [] (p # ps) = False"
| "startsWith (c # cs) (p # ps) = (c = p \<and> startsWith cs ps)"

text \<open>\<open>String.prototype.includes\<close>: the argument occurs somewhere as a substring.\<close>

fun str_includes :: "string \<Rightarrow> string \<Rightarrow> bool" where
  "str_includes [] sub = (sub = [])"
| "str_includes (c # cs) sub = (startsWith (c # cs) sub \<or> str_includes cs sub)"

text \<open>
  White space as \<open>\s\<close> and \<open>trim\<close> read it (WhiteSpace and LineTerminator of
  ECMAScript), among the code units below 256: TAB, LF, VT, FF, CR, SPACE, NBSP.
\<close>

definition is_ws :: "char \<Rightarrow> bool" where
  "is_ws c = ((of_char c :: nat) \<in> {9, 10, 11, 12, 13, 32, 160})"

definition trim :: "string \<Rightarrow> string" where
  "trim s = rev (dropWhile is_ws (rev (dropWhile is_ws s)))"

text \<open>
  \<open>String.prototype.toLowerCase\<close> on code units below 256: \<open>A\<close>..\<open>Z\<close> and the
  Latin-1 capitals \<open>0xC0\<close>..\<open>0xDE\<close> (but the multiplication sign \<open>0xD7\<close>) move up by 32.
\<close>

definition lower_char :: "char \<Rightarrow> char" where
  "lower_char c =
     (let n = (of_char c :: nat)
      in if (65 \<le> n \<and> n \<le> 90) \<or> (192 \<le> n \<and> n \<le> 222 \<and> n \<noteq> 215)
         then char_of (n + 32) else c)"

definition toLowerCase :: "string \<Rightarrow> string" where
  "toLowerCase s = map lower_char s"

text \<open>
  \<open>s.split(/\s+/)\<close>: the pieces between maximal runs of white space. White space at
  the start or at the end of \<open>s\<close> leaves an empty piece there, and the empty string
  splits into one empty piece.
\<close>

function split_ws :: "string \<Rightarrow> string list" where
  "split_ws s =
     (let tok = takeWhile (\<lambda>c. \<not> is_ws c) s;
          rest = dropWhile (\<lambda>c. \<not> is_ws c) s
      in if rest = [] then [tok] else tok # split_ws (dropWhile is_ws rest))"
  by pat_completeness auto
termination
proof (relation "measure length")
  show "wf (measure length)" by simp
next
  fix s :: string and tok rest
  assume r: "rest = dropWhile (\<lambda>c. \<not> is_ws c) s" and ne: "rest \<noteq> []"
  have "length (dropWhile is_ws rest) < length rest"
  proof (cases rest)
    case Nil
    with ne show ?thesis by simp
  next
    case (Cons c cs)
    with r have "dropWhile (\<lambda>c. \<not> is_ws c) s = c # cs" by simp
    then have "is_ws c" by (simp add: dropWhile_eq_Cons_conv)
    with Cons show ?thesis
      using length_dropWhile_le [of is_ws cs] by simp
  qed
  moreover have "length rest \<le> length s"
    using r length_dropWhile_le [of "\<lambda>c. \<not> is_ws c" s] by simp
  ultimately show "(dropWhile is_ws rest, s) \<in> measure length" by simp
qed

declare split_ws.simps [simp del]

text \<open>
  \<open>text.split(/\s+/).filter(word => word.length > 2).length\<close>, the word count of the
  two content-volume checks.
\<close>

definition wordCount :: "string \<Rightarrow> nat" where
  "wordCount s = length (filter (\<lambda>word. length word > 2) (split_ws s))"

text \<open>
  \<open>s.replace(pat, rep)\<close> with a string pattern: the first occurrence of \<open>pat\<close> is
  replaced (\<open>rep\<close> has no \<open>$\<close> pattern in the source).
\<close>

fun replace_first :: "string \<Rightarrow> string \<Rightarrow> string \<Rightarrow> string" where
  "replace_first [] pat rep = (if pat = [] then rep else [])"
| "replace_first (c # cs) pat rep =
     (if startsWith (c # cs) pat then rep @ drop (length pat) (c # cs)
      else c # replace_first cs pat rep)"

text \<open>Decimal digits of a number, as a template literal prints it.\<close>

function show_nat :: "nat \<Rightarrow> string" where
  "show_nat n =
     (if n < 10 then [char_of (48 + n)]
      else show_nat (n div 10) @ [char_of (48 + n mod 10)])"
  by pat_completeness auto
termination
  by (relation "measure (\<lambda>n. n)") auto

declare show_nat.simps [simp del]


section \<open>Check results and the evaluation harness\<close>

datatype status = Pass | Warn | Fail | Manual

text \<open>
  An entry of the \<open>checks\<close> array. The three manual entries are pushed without a
  \<open>weight\<close> property, so the weight is optional.
\<close>

record check_result =
  name :: string
  category :: string
  weight :: "nat option"
  status :: status
  message :: string

text \<open>What a check function returns: \<open>{ status, message }\<close>.\<close>

type_synonym result = "status \<times> string"

text \<open>The two variables the handler mutates while the checks run.\<close>

record state =
  checks :: "check_result list"
  score :: rat

definition CAT_AUTO :: string where
  "CAT_AUTO = ''Automated Technical Checks''"

definition CAT_STRUCT_ACC :: string where
  "CAT_STRUCT_ACC = ''Site Structure & Accessibility''"

definition CAT_CONTENT :: string where
  "CAT_CONTENT = ''Content Quality Indicators''"

definition CAT_PERFORMANCE :: string where
  "CAT_PERFORMANCE = ''Performance & SEO''"

text \<open>
  \<open>runCheck(name, category, weight, checkFn)\<close>. The check function has been run:
  \<open>Inr\<close> is what it returned, \<open>Inl\<close> the message of the error it threw.
\<close>

definition runCheck :: "string \<Rightarrow> string \<Rightarrow> nat \<Rightarrow> string + result \<Rightarrow> state \<Rightarrow> state" where
  "runCheck nm cat w checkFn st =
     (case checkFn of
        Inr (s, m) \<Rightarrow>
          \<lparr>checks = checks st @
             [\<lparr>name = nm, category = cat, weight = Some w, status = s, message = m\<rparr>],
           score = (if s = Pass then score st + of_nat w
                    else if s = Warn then score st + of_nat w / 2
                    else score st)\<rparr>
      | Inl err \<Rightarrow>
          \<lparr>checks = checks st @
             [\<lparr>name = nm, category = cat, weight = Some w, status = Fail,
               message = ''Check failed: '' @ err\<rparr>],
           score = score st\<rparr>)"

text \<open>
  The robots.txt and ads.txt results are pushed by the handler itself, with the
  weight and its half written out.
\<close>

definition pushRobots :: "result \<Rightarrow> state \<Rightarrow> state" where
  "pushRobots r st =
     \<lparr>checks = checks st @
        [\<lparr>name = ''Robots.txt Configuration'', category = CAT_PERFORMANCE, weight = Some 12,
          status = fst r, message = snd r\<rparr>],
      score = (if fst r = Pass then score st + 12
               else if fst r = Warn then score st + 6
               else score st)\<rparr>"

definition pushAds :: "result \<Rightarrow> state \<Rightarrow> state" where
  "pushAds r st =
     \<lparr>checks = checks st @
        [\<lparr>name = ''Ads.txt Presence'', category = CAT_AUTO, weight = Some 10,
          status = fst r, message = snd r\<rparr>],
      score = (if fst r = Pass then score st + 10
               else if fst r = Warn then score st + 5
               else score st)\<rparr>"

definition pushManual :: "string \<Rightarrow> string \<Rightarrow> state \<Rightarrow> state" where
  "pushManual nm msg st =
     st\<lparr>checks := checks st @
        [\<lparr>name = nm, category = CAT_CONTENT, weight = None, status = Manual, message = msg\<rparr>]\<rparr>"

section \<open>Scoring\<close>

text \<open>
  \<open>automatedChecks.reduce((sum, check) => sum + check.weight, 0)\<close>. Adding a missing
  weight gives NaN, which every later addition keeps: \<open>None\<close> stands for NaN.
\<close>

definition automatedChecks :: "check_result list \<Rightarrow> check_result list" where
  "automatedChecks cs = filter (\<lambda>c. status c \<noteq> Manual) cs"

definition add_weight :: "nat option \<Rightarrow> check_result \<Rightarrow> nat option" where
  "add_weight acc c =
     (case acc of None \<Rightarrow> None
      | Some a \<Rightarrow> (case weight c of None \<Rightarrow> None | Some w \<Rightarrow> Some (a + w)))"

definition totalPossibleWeight :: "check_result list \<Rightarrow> nat option" where
  "totalPossibleWeight cs = foldl add_weight (Some 0) (automatedChecks cs)"

text \<open>
  \<open>totalPossibleWeight > 0 ? Math.round((score / totalPossibleWeight) * 100) : 0\<close>.
  \<open>Math.round\<close> rounds to the nearest integer, a tie upwards, which is \<open>round\<close>;
  the quotient is computed exactly. \<open>NaN > 0\<close> is false.
\<close>

definition percentScore :: "rat \<Rightarrow> nat option \<Rightarrow> int" where
  "percentScore sc tw =
     (case tw of
        None \<Rightarrow> 0
      | Some t \<Rightarrow> if t > 0 then round ((sc / of_nat t) * 100) else 0)"

definition isCritical :: "check_result \<Rightarrow> bool" where
  "isCritical c =
     (status c = Fail \<and>
      (str_includes (name c) ''Privacy Policy'' \<or>
       str_includes (name c) ''HTTPS'' \<or>
       str_includes (name c) ''Content Volume'' \<or>
       str_includes (name c) ''robots.txt''))"

definition criticalChecks :: "check_result list \<Rightarrow> check_result list" where
  "criticalChecks cs = filter isCritical cs"

definition failedChecks :: "check_result list \<Rightarrow> nat" where
  "failedChecks cs = length (filter (\<lambda>c. status c = Fail) cs)"

text \<open>The score and the penalty notes, as the three adjustment steps update them.\<close>

type_synonym scored = "int \<times> string list"

definition criticalPenalty :: "check_result list \<Rightarrow> scored \<Rightarrow> scored" where
  "criticalPenalty cs sp =
     (if length (criticalChecks cs) > 0 then
        (let penalty = length (criticalChecks cs) * 15
         in (max 0 (fst sp - int penalty),
             snd sp @ [''Critical issues detected: -'' @ show_nat penalty @ ''%'']))
      else sp)"

definition failurePenalty :: "check_result list \<Rightarrow> scored \<Rightarrow> scored" where
  "failurePenalty cs sp =
     (if failedChecks cs > 5 then
        (let penalty = (failedChecks cs - 5) * 3
         in (max 0 (fst sp - int penalty),
             snd sp @ [''Multiple failures: -'' @ show_nat penalty @ ''%'']))
      else sp)"

definition criticalCap :: "check_result list \<Rightarrow> scored \<Rightarrow> scored" where
  "criticalCap cs sp =
     (if length (criticalChecks cs) > 0 then (min (fst sp) 65, snd sp) else sp)"

definition scoreInterpretation :: "int \<Rightarrow> string" where
  "scoreInterpretation finalScore =
     (if finalScore \<ge> 80 then
        ''Good technical foundation, but AdSense approval depends heavily on content quality, originality, and policy compliance.''
      else if finalScore \<ge> 60 then
        ''Some technical issues need attention. Address critical requirements before applying to AdSense.''
      else
        ''Significant technical issues detected. Your site likely needs substantial improvements before AdSense consideration.'')"

definition recommendations :: "int \<Rightarrow> string list" where
  "recommendations finalScore =
     (if finalScore < 60 then
        [''Fix ALL critical issues immediately (HTTPS, Privacy Policy, Content Volume)'',
         ''Add substantial, original, high-quality content (minimum 1500+ words per page)'',
         ''Ensure complete site structure with all required legal pages'',
         ''AdSense approval requires months of consistent, valuable content creation'']
      else if finalScore < 80 then
        [''Address remaining technical issues'',
         ''Focus heavily on content quality and originality'',
         ''Ensure full compliance with AdSense content policies'',
         ''Build substantial site authority before applying'']
      else
        [''Technical foundation is decent, but remember:'',
         ''AdSense approval is primarily about content quality and originality'',
         ''Ensure compliance with all AdSense content policies'',
         ''Traffic volume and site authority are also crucial factors''])"

text \<open>
  The body of the success response. Its \<open>analysisTime\<close>, a difference of clock
  readings, is left out.
\<close>

record report =
  rp_score :: int
  rp_checks :: "check_result list"
  rp_finalResolvedUrl :: string
  rp_penalties :: "string list"
  rp_scoreInterpretation :: string
  rp_recommendations :: "string list"

text \<open>
  The score after the first penalty step, after the second, and as it is sent: the cap at
  65 and the final \<open>Math.min(finalScore, 100)\<close>.
\<close>

definition adjusted :: "check_result list \<Rightarrow> rat \<Rightarrow> scored" where
  "adjusted cs sc =
     criticalCap cs
       (failurePenalty cs
          (criticalPenalty cs (percentScore sc (totalPossibleWeight cs), [])))"

definition finalScore :: "check_result list \<Rightarrow> rat \<Rightarrow> int" where
  "finalScore cs sc = min (fst (adjusted cs sc)) 100"

definition makeReport :: "string \<Rightarrow> state \<Rightarrow> report" where
  "makeReport finalResolvedUrl st =
     \<lparr>rp_score = finalScore (checks st) (score st),
      rp_checks = checks st,
      rp_finalResolvedUrl = finalResolvedUrl,
      rp_penalties = snd (adjusted (checks st) (score st)),
      rp_scoreInterpretation = scoreInterpretation (finalScore (checks st) (score st)),
      rp_recommendations = recommendations (finalScore (checks st) (score st))\<rparr>"


section \<open>The document and the outside world\<close>

text \<open>
  The checks read the page through the DOM interface of the HTML parser. The model
  takes what each query of the source returns; the query is written beside its field.
\<close>

record anchor =
  a_href :: "string option"  \<comment> \<open>\<open>link.href\<close>; \<open>None\<close> when the property is undefined\<close>
  a_text :: string  \<comment> \<open>\<open>link.textContent\<close>\<close>

record sheet =
  s_text :: string  \<comment> \<open>\<open>el.textContent\<close>\<close>
  s_href :: "string option"  \<comment> \<open>\<open>el.href\<close>, undefined on a \<open>style\<close> element\<close>

record script =
  sc_src :: string  \<comment> \<open>\<open>script.src\<close>\<close>
  sc_text :: string  \<comment> \<open>\<open>script.textContent\<close>\<close>

record document =
  d_title :: "string option"
    \<comment> \<open>\<open>doc.querySelector('title')?.textContent\<close>\<close>
  d_metaDescription :: "string option"
    \<comment> \<open>\<open>doc.querySelector('meta[name="description"]')?.content\<close>\<close>
  d_nav :: "nat option"
    \<comment> \<open>\<open>nav.querySelectorAll('a').length\<close> for the first match of
       \<open>nav, header nav, .nav, .navigation, .menu\<close>; \<open>None\<close> when nothing matches\<close>
  d_headerLinks :: nat
    \<comment> \<open>\<open>doc.querySelectorAll('header a, .menu a').length\<close>\<close>
  d_anchors :: "anchor list"
    \<comment> \<open>\<open>doc.querySelectorAll('a')\<close>\<close>
  d_viewport :: "string option"
    \<comment> \<open>\<open>content\<close> of \<open>doc.querySelector('meta[name="viewport"]')\<close>\<close>
  d_sheets :: "sheet list"
    \<comment> \<open>\<open>doc.querySelectorAll('style, link[rel="stylesheet"]')\<close>\<close>
  d_body :: "string option"
    \<comment> \<open>\<open>doc.body.textContent\<close>; \<open>None\<close> when \<open>doc.body\<close> is null\<close>
  d_h1s :: nat
    \<comment> \<open>\<open>doc.querySelectorAll('h1').length\<close>\<close>
  d_headings :: nat
    \<comment> \<open>\<open>doc.querySelectorAll('h1, h2, h3, h4, h5, h6').length\<close>\<close>
  d_images :: "string list"
    \<comment> \<open>\<open>img.alt\<close> of every element of \<open>doc.querySelectorAll('img')\<close>\<close>
  d_lang :: "string option"
    \<comment> \<open>\<open>doc.documentElement.getAttribute('lang')\<close>\<close>
  d_favicon :: "string option"
    \<comment> \<open>\<open>href\<close> of the first icon link; \<open>None\<close> when there is none\<close>
  d_scripts :: "script list"
    \<comment> \<open>\<open>doc.querySelectorAll('script')\<close>\<close>
  d_structuredData :: bool
    \<comment> \<open>\<open>doc.querySelector('script[type="application/ld+json"]')\<close> is not null\<close>
  d_mainContent :: "string option"
    \<comment> \<open>\<open>textContent\<close> of the first match of \<open>article, main, .main, .post, #content\<close>\<close>

text \<open>A thrown JavaScript error: its \<open>name\<close> and its \<open>message\<close>.\<close>

datatype js_error = JsError (err_name: string) (err_message: string)

text \<open>What a server answers to one request.\<close>

record reply =
  r_status :: nat
  r_statusText :: string
  r_location :: "string option"  \<comment> \<open>\<open>headers.get('location')\<close>\<close>
  r_contentType :: "string option"  \<comment> \<open>\<open>headers.get('content-type')\<close>\<close>
  r_text :: "js_error + string"  \<comment> \<open>\<open>await response.text()\<close>\<close>

text \<open>The response object of \<open>fetch\<close>: the reply and \<open>response.url\<close>.\<close>

record response =
  rs_url :: string
  rs_reply :: reply

definition rs_ok :: "response \<Rightarrow> bool" where
  "rs_ok r = (200 \<le> r_status (rs_reply r) \<and> r_status (rs_reply r) < 300)"

text \<open>
  Parts of a parsed URL that the source reads.
\<close>

record url_parts =
  href :: string  \<comment> \<open>the normalised URL, as the parser serialises it\<close>
  protocol :: string
  hostname :: string
  origin :: string

text \<open>
  Everything outside the program: the network (one request to a normalised URL, made
  under a time limit in milliseconds or under none, is answered or fails), the URL parser
  (\<open>new URL(s)\<close> and \<open>new URL(location, base).href\<close>, \<open>None\<close> when it throws), the HTML
  parser and the time the first retrieval took.
\<close>

record world =
  net :: "string \<Rightarrow> nat option \<Rightarrow> js_error + reply"
  parse_url :: "string \<Rightarrow> url_parts option"
  resolve_url :: "string \<Rightarrow> string \<Rightarrow> string option"
  parse_html :: "string \<Rightarrow> document option"
  elapsed :: nat

definition invalidUrl :: js_error where
  "invalidUrl = JsError ''TypeError'' ''Invalid URL''"

section \<open>The regular expressions of the robots.txt check\<close>

text \<open>
  A literal of the pattern under the \<open>i\<close> flag: a letter matches both its cases. The
  literals of the source are ASCII, and no other code unit below 256 has an ASCII
  capital.
\<close>

definition upper_ascii :: "char \<Rightarrow> char" where
  "upper_ascii c =
     (let n = (of_char c :: nat)
      in if 97 \<le> n \<and> n \<le> 122 then char_of (n - 32) else c)"

text \<open>The rest of the input after the literal, when the input starts with it.\<close>

fun match_lit :: "string \<Rightarrow> string \<Rightarrow> string option" where
  "match_lit [] s = Some s"
| "match_lit (p # ps) [] = None"
| "match_lit (p # ps) (c # cs) =
     (if upper_ascii p = upper_ascii c then match_lit ps cs else None)"

text \<open>\<open>$\<close> under the \<open>m\<close> flag: the end of the input, or a line terminator follows.\<close>

definition at_line_end :: "string \<Rightarrow> bool" where
  "at_line_end s = (case s of [] \<Rightarrow> True | c # _ \<Rightarrow> (of_char c :: nat) \<in> {10, 13})"

text \<open>
  \<open>/User-agent:\s*AGENT\s*Disallow:\s*\/$/im\<close> matched at the start of the input. Every
  \<open>\s*\<close> is followed by a literal that is not white space, so it takes all the white
  space there is.
\<close>

definition blocking_at :: "string \<Rightarrow> string \<Rightarrow> bool" where
  "blocking_at agent s =
     (case match_lit ''User-agent:'' s of
        None \<Rightarrow> False
      | Some r1 \<Rightarrow>
          (case match_lit agent (dropWhile is_ws r1) of
             None \<Rightarrow> False
           | Some r2 \<Rightarrow>
               (case match_lit ''Disallow:'' (dropWhile is_ws r2) of
                  None \<Rightarrow> False
                | Some r3 \<Rightarrow>
                    (case match_lit ''/'' (dropWhile is_ws r3) of
                       None \<Rightarrow> False
                     | Some r4 \<Rightarrow> at_line_end r4))))"

text \<open>\<open>pattern.test(text)\<close>: the pattern matches at some position.\<close>

fun somewhere :: "(string \<Rightarrow> bool) \<Rightarrow> string \<Rightarrow> bool" where
  "somewhere P [] = P []"
| "somewhere P (c # cs) = (P (c # cs) \<or> somewhere P cs)"

definition blockingPatterns :: "string list" where
  "blockingPatterns = [''*'', ''Googlebot'', ''AdsBot-Google'']"

definition isBlocked :: "string \<Rightarrow> bool" where
  "isBlocked txt = list_ex (\<lambda>agent. somewhere (blocking_at agent) txt) blockingPatterns"

definition hasSitemap :: "string \<Rightarrow> bool" where
  "hasSitemap txt = somewhere (\<lambda>s. match_lit ''sitemap:'' s \<noteq> None) txt"


section \<open>The check functions\<close>

text \<open>
  Each check function is modelled by what a call of it gives: \<open>Inr\<close> the returned
  \<open>{ status, message }\<close>, \<open>Inl\<close> the message of the error it throws. The messages of
  the errors are the JavaScript engine's.
\<close>

definition undefinedToLowerCase :: string where
  "undefinedToLowerCase = ''Cannot read properties of undefined (reading 'toLowerCase')''"

definition nullTextContent :: string where
  "nullTextContent = ''Cannot read properties of null (reading 'textContent')''"

definition secureConnection :: "string \<Rightarrow> string + result" where
  "secureConnection finalResolvedUrl =
     (if startsWith finalResolvedUrl ''https://''
      then Inr (Pass, ''Site uses HTTPS encryption.'')
      else Inr (Fail, ''Site does not use HTTPS. This is CRITICAL for AdSense approval.''))"

definition httpsRedirect :: "world \<Rightarrow> string \<Rightarrow> string \<Rightarrow> string + result" where
  "httpsRedirect w initialUrl finalResolvedUrl =
     (case parse_url w (if startsWith initialUrl ''http'' then initialUrl
                        else ''https://'' @ initialUrl) of
        None \<Rightarrow> Inl (err_message invalidUrl)
      | Some initial \<Rightarrow>
          (case parse_url w finalResolvedUrl of
             None \<Rightarrow> Inl (err_message invalidUrl)
           | Some final \<Rightarrow>
               if protocol initial = ''http:'' \<and> protocol final = ''https:'' \<and>
                  hostname initial = hostname final
               then Inr (Pass, ''HTTP correctly redirects to HTTPS.'')
               else if protocol final = ''https:'' then Inr (Pass, ''Site uses HTTPS.'')
               else Inr (Fail, ''No HTTP to HTTPS redirect configured.'')))"

definition seoTitle :: "document \<Rightarrow> string + result" where
  "seoTitle doc =
     (case map_option trim (d_title doc) of
        None \<Rightarrow> Inr (Fail, ''Missing title tag - critical for SEO.'')
      | Some title \<Rightarrow>
          if title = [] then Inr (Fail, ''Missing title tag - critical for SEO.'')
          else if length title < 10 then
            Inr (Fail, ''Title too short ('' @ show_nat (length title) @
                       '' chars). Should be 15-60 characters.'')
          else if length title > 60 then
            Inr (Warn, ''Title too long ('' @ show_nat (length title) @
                       '' chars). Consider shortening to under 60 characters.'')
          else
            Inr (Pass, ''Good title length: '' @ [CHR 0x22] @ title @ [CHR 0x22] @ '' ('' @
                       show_nat (length title) @ '' chars)''))"

definition metaDescription :: "document \<Rightarrow> string + result" where
  "metaDescription doc =
     (case map_option trim (d_metaDescription doc) of
        None \<Rightarrow> Inr (Fail, ''Missing meta description - important for SEO.'')
      | Some metaDesc \<Rightarrow>
          if metaDesc = [] then Inr (Fail, ''Missing meta description - important for SEO.'')
          else if length metaDesc < 120 then
            Inr (Warn, ''Meta description short ('' @ show_nat (length metaDesc) @
                       '' chars). Consider 150-160 characters.'')
          else if length metaDesc > 160 then
            Inr (Warn, ''Meta description long ('' @ show_nat (length metaDesc) @
                       '' chars). May be truncated in search results.'')
          else
            Inr (Pass, ''Good meta description length ('' @ show_nat (length metaDesc) @
                       '' chars).''))"

definition navigationStructure :: "document \<Rightarrow> string + result" where
  "navigationStructure doc =
     (let navLinks = (case d_nav doc of Some n \<Rightarrow> n | None \<Rightarrow> d_headerLinks doc)
      in if navLinks \<ge> 5 then
           Inr (Pass, ''Clear navigation with '' @ show_nat navLinks @ '' links found.'')
         else if navLinks \<ge> 3 then
           Inr (Warn, ''Navigation found with '' @ show_nat navLinks @
                      '' links. Consider adding more sections.'')
         else
           Inr (Fail, ''Insufficient navigation structure. Add clear menu with multiple sections.''))"

text \<open>\<open>findLink(keywords)\<close>: the first anchor whose href or text has one of the keywords.\<close>

definition linkMatches :: "string list \<Rightarrow> anchor \<Rightarrow> bool" where
  "linkMatches keywords link =
     (let href = toLowerCase (case a_href link of None \<Rightarrow> [] | Some h \<Rightarrow> h);
          txt = toLowerCase (a_text link)
      in list_ex (\<lambda>keyword. str_includes href keyword \<or> str_includes txt keyword) keywords)"

definition findLink :: "string list \<Rightarrow> document \<Rightarrow> anchor option" where
  "findLink keywords doc = find (linkMatches keywords) (d_anchors doc)"

definition privacyPolicy :: "document \<Rightarrow> string + result" where
  "privacyPolicy doc =
     (case findLink [''privacy'', ''policy'', ''privacy-policy''] doc of
        None \<Rightarrow>
          Inr (Fail, ''Privacy Policy page missing - CRITICAL REQUIREMENT for AdSense approval.'')
      | Some privacyLink \<Rightarrow>
          (case a_href privacyLink of
             None \<Rightarrow> Inl undefinedToLowerCase
           | Some h \<Rightarrow>
               if str_includes (toLowerCase h) ''privacy'' \<or> str_includes (toLowerCase h) ''policy''
               then Inr (Pass, ''Privacy Policy link found - REQUIRED for AdSense.'')
               else Inr (Fail,
                 ''Privacy Policy page missing - CRITICAL REQUIREMENT for AdSense approval.'')))"

definition termsOfService :: "document \<Rightarrow> string + result" where
  "termsOfService doc =
     (case findLink [''terms'', ''service'', ''use'', ''tos'', ''terms-of-service''] doc of
        Some termsLink \<Rightarrow> Inr (Pass, ''Terms of Service page found.'')
      | None \<Rightarrow> Inr (Warn, ''Terms of Service page recommended for trust signals.''))"

definition aboutContact :: "document \<Rightarrow> string + result" where
  "aboutContact doc =
     (let hasAbout = (findLink [''about'', ''about-us''] doc \<noteq> None);
          hasContact = (findLink [''contact'', ''contact-us''] doc \<noteq> None)
      in if hasAbout \<and> hasContact then Inr (Pass, ''Both About and Contact pages found.'')
         else if hasAbout \<or> hasContact then
           Inr (Warn, ''Missing '' @ (if hasAbout then ''Contact'' else ''About'') @
                      '' page. Both recommended.'')
         else Inr (Fail, ''Both About and Contact pages missing - important for trust.''))"

text \<open>\<open>el.textContent || el.href || ''\<close>.\<close>

definition sheetSource :: "sheet \<Rightarrow> string" where
  "sheetSource el =
     (if s_text el \<noteq> [] then s_text el
      else (case s_href el of None \<Rightarrow> [] | Some h \<Rightarrow> h))"

definition mobileResponsiveness :: "document \<Rightarrow> string + result" where
  "mobileResponsiveness doc =
     (let hasResponsiveCss = list_ex (\<lambda>el. str_includes (sheetSource el) ''media'') (d_sheets doc)
      in case d_viewport doc of
           None \<Rightarrow> Inr (Fail, ''Missing viewport meta tag - essential for mobile users.'')
         | Some content \<Rightarrow>
             if str_includes content ''width=device-width'' then
               (if hasResponsiveCss then
                  Inr (Pass, ''Mobile-optimized with viewport tag and responsive CSS.'')
                else Inr (Warn, ''Viewport tag found but responsive CSS unclear.''))
             else Inr (Fail, ''Missing viewport meta tag - essential for mobile users.''))"

definition contentVolume :: "document \<Rightarrow> string + result" where
  "contentVolume doc =
     (case d_body doc of
        None \<Rightarrow> Inl nullTextContent
      | Some textContent \<Rightarrow>
          (let wc = wordCount textContent
           in if wc > 1500 then
                Inr (Pass, ''Good content volume (~'' @ show_nat wc @ '' words).'')
              else if wc > 800 then
                Inr (Warn, ''Moderate content (~'' @ show_nat wc @
                  '' words). AdSense prefers sites with substantial content (1500+ words per page).'')
              else if wc > 300 then
                Inr (Fail, ''Low content volume (~'' @ show_nat wc @
                  '' words). AdSense requires substantial, valuable content.'')
              else
                Inr (Fail, ''Insufficient content (~'' @ show_nat wc @
                  '' words). AdSense typically rejects sites with minimal content.'')))"

definition headingStructure :: "document \<Rightarrow> string + result" where
  "headingStructure doc =
     (if d_h1s doc = 1 \<and> d_headings doc \<ge> 3 then
        Inr (Pass, ''Good heading structure: 1 H1, '' @ show_nat (d_headings doc) @
                   '' total headings.'')
      else if d_h1s doc = 1 then
        Inr (Warn, ''H1 found but consider adding more subheadings (H2, H3).'')
      else if d_h1s doc > 1 then
        Inr (Warn, ''Multiple H1 tags found ('' @ show_nat (d_h1s doc) @
                   ''). Use only one H1 per page.'')
      else Inr (Fail, ''No H1 heading found. Add proper heading structure.''))"

text \<open>
  The share of images with alt text is a quotient of two counts, compared exactly. The
  source returns before the division when there is no image.
\<close>

definition imageOptimization :: "document \<Rightarrow> string + result" where
  "imageOptimization doc =
     (let images = d_images doc;
          imagesWithAlt = filter (\<lambda>alt. alt \<noteq> [] \<and> trim alt \<noteq> []) images;
          ratio = show_nat (length imagesWithAlt) @ ''/'' @ show_nat (length images)
      in if length images = 0 then
           Inr (Warn, ''No images found. Visual content improves user engagement.'')
         else
           (let altPercentage =
                  (of_nat (length imagesWithAlt) / of_nat (length images)) * (100 :: rat)
            in if altPercentage \<ge> 80 then
                 Inr (Pass, ''Good image accessibility: '' @ ratio @ '' images have alt text.'')
               else if altPercentage \<ge> 50 then
                 Inr (Warn, ''Some images missing alt text: '' @ ratio @
                            ''. Add for accessibility.'')
               else
                 Inr (Fail, ''Poor image accessibility: only '' @ ratio @
                            '' images have alt text.'')))"

definition languageDeclaration :: "document \<Rightarrow> string + result" where
  "languageDeclaration doc =
     (case d_lang doc of
        None \<Rightarrow> Inr (Warn, ''No language declaration. Add lang attribute to <html> tag.'')
      | Some lang \<Rightarrow>
          if lang \<noteq> [] then
            Inr (Pass, ''Language declared as '' @ [CHR 0x22] @ lang @ [CHR 0x22] @ ''.'')
          else Inr (Warn, ''No language declaration. Add lang attribute to <html> tag.''))"

definition faviconPresent :: "document \<Rightarrow> string + result" where
  "faviconPresent doc =
     (case d_favicon doc of
        None \<Rightarrow> Inr (Warn, ''Favicon missing. Add for professional appearance.'')
      | Some h \<Rightarrow>
          if h \<noteq> [] then Inr (Pass, ''Favicon found - good for branding.'')
          else Inr (Warn, ''Favicon missing. Add for professional appearance.''))"

definition pageLoadSpeed :: "nat \<Rightarrow> string + result" where
  "pageLoadSpeed responseTime =
     (if responseTime < 3000 then
        Inr (Pass, ''Good response time: '' @ show_nat responseTime @ ''ms'')
      else if responseTime < 5000 then
        Inr (Warn, ''Moderate response time: '' @ show_nat responseTime @
                   ''ms. Consider optimization.'')
      else
        Inr (Fail, ''Slow response time: '' @ show_nat responseTime @
                   ''ms. Optimize for better user experience.''))"

definition errorIndicators :: "string list" where
  "errorIndicators = [''404'', ''page not found'', ''error'', ''not found'', ''does not exist'']"

definition errorPageDetection :: "document \<Rightarrow> string + result" where
  "errorPageDetection doc =
     (case d_body doc of
        None \<Rightarrow> Inl nullTextContent
      | Some textContent \<Rightarrow>
          if list_ex (\<lambda>indicator. str_includes (toLowerCase textContent) indicator) errorIndicators
          then Inr (Fail, ''Potential error page or broken content detected.'')
          else Inr (Pass, ''No obvious error indicators found.''))"

definition platforms :: "string list" where
  "platforms = [''facebook.com'', ''twitter.com'', ''instagram.com'', ''linkedin.com'',
                ''youtube.com'']"

definition isSocial :: "anchor \<Rightarrow> bool" where
  "isSocial link =
     (case a_href link of
        None \<Rightarrow> False
      | Some h \<Rightarrow> list_ex (\<lambda>platform. str_includes (toLowerCase h) platform) platforms)"

text \<open>
  The filter reads \<open>link.href.toLowerCase()\<close> of every anchor, with no guard: an anchor
  without the property makes the check throw.
\<close>

definition socialMedia :: "document \<Rightarrow> string + result" where
  "socialMedia doc =
     (if list_ex (\<lambda>link. a_href link = None) (d_anchors doc) then Inl undefinedToLowerCase
      else
        (let socialLinks = filter isSocial (d_anchors doc)
         in if length socialLinks \<ge> 2 then
              Inr (Pass, ''Social media links found ('' @ show_nat (length socialLinks) @
                         ''). Good for trust signals.'')
            else if length socialLinks = 1 then
              Inr (Warn, ''Limited social media presence. Consider adding more platforms.'')
            else
              Inr (Warn, ''No social media links found. Consider adding for trust signals.'')))"

definition isAnalytics :: "script \<Rightarrow> bool" where
  "isAnalytics sc =
     (str_includes (sc_src sc) ''googletagmanager.com/gtag/js'' \<or>
      str_includes (sc_text sc) ''ga-lite'' \<or>
      str_includes (sc_text sc) ''ga('create','')"

definition googleAnalytics :: "document \<Rightarrow> string + result" where
  "googleAnalytics doc =
     (if list_ex isAnalytics (d_scripts doc) then
        Inr (Pass,
          ''Google Analytics script detected. This is a good sign of a well-managed site.'')
      else
        Inr (Warn,
          ''Google Analytics script not found. Tracking site traffic is highly recommended.''))"

definition structuredData :: "document \<Rightarrow> string + result" where
  "structuredData doc =
     (if d_structuredData doc then
        Inr (Pass,
          ''Structured data (JSON-LD) found. This helps search engines understand your content.'')
      else
        Inr (Warn, ''No structured data (JSON-LD) found. Consider adding it to improve SEO.''))"

definition mainContentVolume :: "document \<Rightarrow> string + result" where
  "mainContentVolume doc =
     (case (case d_mainContent doc of Some t \<Rightarrow> Some t | None \<Rightarrow> d_body doc) of
        None \<Rightarrow> Inl nullTextContent
      | Some textContent \<Rightarrow>
          (let wc = wordCount textContent
           in if wc > 1000 then
                Inr (Pass, ''Excellent main content volume (~'' @ show_nat wc @ '' words).'')
              else if wc > 500 then
                Inr (Warn, ''Sufficient main content (~'' @ show_nat wc @
                           '' words), but more is better for AdSense.'')
              else
                Inr (Fail, ''Low main content volume (~'' @ show_nat wc @
                           '' words). This is a major red flag for AdSense.'')))"


section \<open>Retrieval\<close>

text \<open>
  Every function that touches the network returns, beside its result, the URLs it
  requested, in the order of the requests.
\<close>

text \<open>
  One HTTP request of \<open>fetch(url, ...)\<close>. The client parses the URL (a string that is
  no URL makes the call throw before anything is sent) and asks the network at the
  normalised URL; \<open>response.url\<close> is that normalised URL, not the string passed in.
\<close>

definition request :: "world \<Rightarrow> string \<Rightarrow> nat option \<Rightarrow> (js_error + response) \<times> string list" where
  "request w url limit =
     (case parse_url w url of
        None \<Rightarrow> (Inl invalidUrl, [])
      | Some u \<Rightarrow>
          (case net w (href u) limit of
             Inl e \<Rightarrow> (Inl e, [href u])
           | Inr rp \<Rightarrow> (Inr \<lparr>rs_url = href u, rs_reply = rp\<rparr>, [href u])))"

text \<open>
  \<open>fetch(url, options)\<close> as the HTTP client runs it when \<open>redirect\<close> is left at its
  default \<open>follow\<close>: a reply with status 301, 302, 303, 307 or 308 and a location header
  is followed, at most \<open>k\<close> times (the client's default is 20); the response carries the
  URL that answered last.
\<close>

definition isRedirect :: "nat \<Rightarrow> bool" where
  "isRedirect code = (code \<in> {301, 302, 303, 307, 308})"

fun fetch_follow :: "world \<Rightarrow> nat option \<Rightarrow> nat \<Rightarrow> string \<Rightarrow> (js_error + response) \<times> string list" where
  "fetch_follow w limit k url =
     (case request w url limit of
        (Inl e, reqs) \<Rightarrow> (Inl e, reqs)
      | (Inr response, reqs) \<Rightarrow>
          if isRedirect (r_status (rs_reply response)) then
            (case r_location (rs_reply response) of
               None \<Rightarrow> (Inr response, reqs)
             | Some location \<Rightarrow>
                 (case resolve_url w location (rs_url response) of
                    None \<Rightarrow>
                      (Inl (JsError ''FetchError''
                         (''uri requested responds with an invalid redirect URL: '' @ location)),
                       reqs)
                  | Some next_url \<Rightarrow>
                      (case k of
                         0 \<Rightarrow>
                           (Inl (JsError ''FetchError''
                              (''maximum redirect reached at: '' @ rs_url response)),
                            reqs)
                       | Suc k' \<Rightarrow>
                           (let (r, reqs') = fetch_follow w limit k' next_url
                            in (r, reqs @ reqs')))))
          else (Inr response, reqs))"

declare fetch_follow.simps [simp del]

definition requestTimeout :: js_error where
  "requestTimeout = JsError ''Error'' ''Request timeout - website took too long to respond''"

text \<open>
  The \<open>for\<close> loop of \<open>fetchWithRedirects\<close> with \<open>n\<close> rounds left: each round requests
  \<open>finalUrl\<close> with \<open>redirect: 'manual'\<close> under a limit of 30 seconds, and either moves
  \<open>finalUrl\<close> to the resolved location, or leaves the loop, or throws. The result is
  \<open>finalUrl\<close> when the loop ends.
\<close>

fun redirectLoop :: "world \<Rightarrow> nat \<Rightarrow> string \<Rightarrow> (js_error + string) \<times> string list" where
  "redirectLoop w 0 finalUrl = (Inr finalUrl, [])"
| "redirectLoop w (Suc n) finalUrl =
     (case request w finalUrl (Some 30000) of
        (Inl e, reqs) \<Rightarrow>
          (Inl (if err_name e = ''AbortError'' then requestTimeout else e), reqs)
      | (Inr response, reqs) \<Rightarrow>
          (case (if r_status (rs_reply response) \<ge> 300 \<and> r_status (rs_reply response) < 400
                 then r_location (rs_reply response) else None) of
             Some location \<Rightarrow>
               (case resolve_url w location finalUrl of
                  None \<Rightarrow> (Inl invalidUrl, reqs)
                | Some next_url \<Rightarrow>
                    (let (r, reqs') = redirectLoop w n next_url
                     in (r, reqs @ reqs')))
           | None \<Rightarrow> (Inr finalUrl, reqs)))"

text \<open>
  \<open>fetchWithRedirects(url, options, maxRedirects)\<close>: the loop, then
  \<open>return fetch(finalUrl, defaultOptions)\<close>, a request with no time limit that follows
  redirects. Every call of the source leaves \<open>maxRedirects\<close> at its default 5.
\<close>

definition fetchWithRedirects :: "world \<Rightarrow> string \<Rightarrow> nat \<Rightarrow> (js_error + response) \<times> string list" where
  "fetchWithRedirects w url maxRedirects =
     (case redirectLoop w maxRedirects url of
        (Inl e, reqs) \<Rightarrow> (Inl e, reqs)
      | (Inr finalUrl, reqs) \<Rightarrow>
          (let (r, reqs') = fetch_follow w None 20 finalUrl
           in (r, reqs @ reqs')))"

text \<open>
  The retrieval block of the handler: the first attempt, the second attempt over
  \<open>http://\<close> when the first response is not ok and the target starts with \<open>https://\<close>,
  and the message of the 500 response when the block throws.
\<close>

definition failedToAccess :: "string \<Rightarrow> string" where
  "failedToAccess msg =
     ''Failed to access website: '' @ msg @
     ''. Please check if the URL is correct and the website is accessible.''"

definition statusError :: "response \<Rightarrow> string" where
  "statusError r =
     ''Server responded with status '' @ show_nat (r_status (rs_reply r)) @ '': '' @
     r_statusText (rs_reply r)"

definition fetchPage :: "world \<Rightarrow> string \<Rightarrow> (string + response) \<times> string list" where
  "fetchPage w targetUrl =
     (case fetchWithRedirects w targetUrl 5 of
        (Inl e, reqs) \<Rightarrow> (Inl (failedToAccess (err_message e)), reqs)
      | (Inr htmlResponse, reqs) \<Rightarrow>
          if \<not> rs_ok htmlResponse then
            (if startsWith targetUrl ''https://'' then
               (case fetchWithRedirects w (replace_first targetUrl ''https://'' ''http://'') 5 of
                  (Inl e, reqs') \<Rightarrow> (Inl (failedToAccess (err_message e)), reqs @ reqs')
                | (Inr htmlResponse', reqs') \<Rightarrow>
                    if \<not> rs_ok htmlResponse'
                    then (Inl (failedToAccess (statusError htmlResponse')), reqs @ reqs')
                    else (Inr htmlResponse', reqs @ reqs'))
             else (Inl (failedToAccess (statusError htmlResponse)), reqs))
          else (Inr htmlResponse, reqs))"

section \<open>The two probes\<close>

text \<open>
  \<open>fetch(`${origin}/robots.txt`, ...)\<close> under a limit of 8 seconds, inside the
  \<open>try\<close> of the probe: a URL that does not parse and a failed request both end in its
  \<open>catch\<close>.
\<close>

definition probe :: "world \<Rightarrow> string \<Rightarrow> string \<Rightarrow> js_error + response" where
  "probe w finalResolvedUrl path =
     (case parse_url w finalResolvedUrl of
        None \<Rightarrow> Inl invalidUrl
      | Some u \<Rightarrow> fst (fetch_follow w (Some 8000) 20 (origin u @ path)))"

definition robotsCheck :: "world \<Rightarrow> string \<Rightarrow> result" where
  "robotsCheck w finalResolvedUrl =
     (case probe w finalResolvedUrl ''/robots.txt'' of
        Inl e \<Rightarrow> (Warn, ''Could not analyze robots.txt due to network error.'')
      | Inr robotsRes \<Rightarrow>
          if \<not> rs_ok robotsRes then
            (Warn, ''robots.txt not found. Consider adding one for better SEO.'')
          else
            (case r_text (rs_reply robotsRes) of
               Inl e \<Rightarrow> (Warn, ''Could not analyze robots.txt due to network error.'')
             | Inr txt \<Rightarrow>
                 if isBlocked txt then
                   (Fail, ''robots.txt blocks search engine crawlers - this will prevent AdSense approval.'')
                 else if hasSitemap txt then
                   (Pass, ''robots.txt configured correctly with sitemap reference.'')
                 else
                   (Pass, ''robots.txt allows crawling but consider adding sitemap reference.'')))"

definition adsTxtCheck :: "world \<Rightarrow> string \<Rightarrow> result" where
  "adsTxtCheck w finalResolvedUrl =
     (case probe w finalResolvedUrl ''/ads.txt'' of
        Inl e \<Rightarrow> (Warn, ''Could not analyze ads.txt due to a network error.'')
      | Inr adsTxtRes \<Rightarrow>
          if \<not> rs_ok adsTxtRes then
            (Warn, ''ads.txt file not found. This is recommended for all publishers.'')
          else
            (case r_text (rs_reply adsTxtRes) of
               Inl e \<Rightarrow> (Warn, ''Could not analyze ads.txt due to a network error.'')
             | Inr txt \<Rightarrow>
                 if str_includes txt ''google.com, pub-'' then
                   (Pass, ''ads.txt file found and seems to contain a Google publisher ID.'')
                 else
                   (Warn, ''ads.txt file found, but it does not appear to contain a Google publisher ID.'')))"


section \<open>The handler\<close>

text \<open>
  The statements of the handler that push a check result, in the order of the source:
  a call of \<open>runCheck\<close> with what its check function gives, the two pushes of the probe
  results, and the pushes of the manual entries.
\<close>

datatype entry =
    Run string string nat "string + result"
  | Robots result
  | Ads result
  | ManualEntry string string

fun exec :: "entry \<Rightarrow> state \<Rightarrow> state" where
  "exec (Run nm cat w checkFn) st = runCheck nm cat w checkFn st"
| "exec (Robots r) st = pushRobots r st"
| "exec (Ads r) st = pushAds r st"
| "exec (ManualEntry nm msg) st = pushManual nm msg st"

definition registry :: "world \<Rightarrow> string \<Rightarrow> string \<Rightarrow> document \<Rightarrow> entry list" where
  "registry w initialUrl finalResolvedUrl doc =
     [Run ''Secure Connection (HTTPS/SSL)'' CAT_AUTO 20 (secureConnection finalResolvedUrl),
      Run ''HTTPS Redirect Check'' CAT_AUTO 15 (httpsRedirect w initialUrl finalResolvedUrl),
      Run ''SEO Title Tag'' CAT_PERFORMANCE 8 (seoTitle doc),
      Run ''Meta Description'' CAT_PERFORMANCE 6 (metaDescription doc),
      Robots (robotsCheck w finalResolvedUrl),
      Run ''Navigation Structure'' CAT_STRUCT_ACC 10 (navigationStructure doc),
      Run ''Privacy Policy Page'' CAT_STRUCT_ACC 25 (privacyPolicy doc),
      Run ''Terms of Service/Use Page'' CAT_STRUCT_ACC 8 (termsOfService doc),
      Run ''About Us & Contact Information'' CAT_STRUCT_ACC 12 (aboutContact doc),
      Run ''Mobile Responsiveness'' CAT_STRUCT_ACC 10 (mobileResponsiveness doc),
      Run ''Content Volume'' CAT_CONTENT 20 (contentVolume doc),
      Run ''Heading Structure (SEO)'' CAT_PERFORMANCE 5 (headingStructure doc),
      Run ''Image Optimization'' CAT_PERFORMANCE 4 (imageOptimization doc),
      Run ''Language Declaration'' CAT_STRUCT_ACC 3 (languageDeclaration doc),
      Run ''Favicon Present'' CAT_STRUCT_ACC 2 (faviconPresent doc),
      Run ''Page Load Speed Indicator'' CAT_PERFORMANCE 3 (pageLoadSpeed (elapsed w)),
      Run ''Error Page Detection'' CAT_STRUCT_ACC 5 (errorPageDetection doc),
      Run ''Social Media Integration'' CAT_CONTENT 3 (socialMedia doc),
      Run ''Google Analytics Installed'' CAT_PERFORMANCE 7 (googleAnalytics doc),
      Ads (adsTxtCheck w finalResolvedUrl),
      Run ''Structured Data (Schema.org)'' CAT_PERFORMANCE 6 (structuredData doc),
      Run ''Main Content Volume'' CAT_CONTENT 15 (mainContentVolume doc),
      ManualEntry ''Content Originality & Quality''
        ''Ensure all content is original, well-written, and provides value to users. No copied content allowed.'',
      ManualEntry ''Content Policy Compliance''
        ''Verify content complies with AdSense policies: no adult content, violence, illegal activities, etc.'',
      ManualEntry ''User Experience & Site Design''
        ''Ensure professional design, easy navigation, fast loading, and good user experience.'']"

text \<open>\<open>let checks = []; let score = 0;\<close> and the statements in their order.\<close>

definition runChecks :: "world \<Rightarrow> string \<Rightarrow> string \<Rightarrow> document \<Rightarrow> state" where
  "runChecks w initialUrl finalResolvedUrl doc =
     fold exec (registry w initialUrl finalResolvedUrl doc) \<lparr>checks = [], score = 0\<rparr>"

text \<open>The response of \<open>POST /api/analyze-url\<close>: the status code and the body.\<close>

datatype http_result =
    Json report
  | Error400 string
  | Error500 string "string option"

text \<open>
  The handler, for a request whose \<open>url\<close> is a string. What the retrieval block
  requested is dropped here; \<open>fetchPage\<close> gives it.
\<close>

definition analyzeUrl :: "world \<Rightarrow> string \<Rightarrow> http_result" where
  "analyzeUrl w initialUrl =
     (if initialUrl = [] then Error400 ''URL is required.''
      else
        (let trimmed = trim initialUrl;
             targetUrl = (if startsWith trimmed ''http://'' \<or> startsWith trimmed ''https://''
                          then trimmed else ''https://'' @ trimmed)
         in case parse_url w targetUrl of
              None \<Rightarrow> Error400 ''Invalid URL format provided.''
            | Some _ \<Rightarrow>
                (case fst (fetchPage w targetUrl) of
                   Inl msg \<Rightarrow> Error500 msg None
                 | Inr htmlResponse \<Rightarrow>
                     (let finalResolvedUrl = rs_url htmlResponse;
                          contentType = (case r_contentType (rs_reply htmlResponse) of
                                           None \<Rightarrow> [] | Some c \<Rightarrow> c)
                      in if \<not> str_includes contentType ''text/html'' then
                           Error400 ''The URL does not point to an HTML webpage. Please provide a valid website URL.''
                         else
                           (case r_text (rs_reply htmlResponse) of
                              Inl e \<Rightarrow>
                                Error500 (''Analysis failed: '' @ err_message e)
                                  (Some ''Please check that the website is accessible and contains valid HTML content.'')
                            | Inr html \<Rightarrow>
                                if html = [] \<or> length html < 100 then
                                  Error400 ''Website returned empty or minimal content. Please check if the URL is correct.''
                                else
                                  (case parse_html w html of
                                     None \<Rightarrow>
                                       Error500 ''Failed to parse website HTML. The website may have malformed content.'' None
                                   | Some doc \<Rightarrow>
                                       Json (makeReport finalResolvedUrl
                                               (runChecks w initialUrl finalResolvedUrl doc))))))))"


section \<open>What a statement of the handler pushes\<close>

text \<open>
  The status that the harness records for a call of a check function: a thrown error
  counts as a failure.
\<close>

definition recorded :: "string + result \<Rightarrow> status" where
  "recorded checkFn = (case checkFn of Inl err \<Rightarrow> Fail | Inr r \<Rightarrow> fst r)"

text \<open>The entry a statement appends to \<open>checks\<close>, and what an entry adds to \<open>score\<close>.\<close>

fun entry_result :: "entry \<Rightarrow> check_result" where
  "entry_result (Run nm cat w checkFn) =
     \<lparr>name = nm, category = cat, weight = Some w, status = recorded checkFn,
      message = (case checkFn of Inl err \<Rightarrow> ''Check failed: '' @ err | Inr r \<Rightarrow> snd r)\<rparr>"
| "entry_result (Robots r) =
     \<lparr>name = ''Robots.txt Configuration'', category = CAT_PERFORMANCE, weight = Some 12,
      status = fst r, message = snd r\<rparr>"
| "entry_result (Ads r) =
     \<lparr>name = ''Ads.txt Presence'', category = CAT_AUTO, weight = Some 10,
      status = fst r, message = snd r\<rparr>"
| "entry_result (ManualEntry nm msg) =
     \<lparr>name = nm, category = CAT_CONTENT, weight = None, status = Manual, message = msg\<rparr>"

definition gain :: "check_result \<Rightarrow> rat" where
  "gain c =
     (case weight c of
        None \<Rightarrow> 0
      | Some w \<Rightarrow>
          if status c = Pass then of_nat w
          else if status c = Warn then of_nat w / 2
          else 0)"

section \<open>Example sites\<close>

text \<open>
  A stand-in for the URL parser on plain \<open>http://host/path\<close> and
  \<open>https://host/path\<close> URLs, for the examples. A URL with no path gets the path
  \<open>/\<close>, as the parser normalises it.
\<close>

definition simpleUrl :: "string \<Rightarrow> string \<Rightarrow> url_parts" where
  "simpleUrl scheme rest =
     (let host = takeWhile (\<lambda>c. c \<noteq> CHR ''/'') rest;
          path = dropWhile (\<lambda>c. c \<noteq> CHR ''/'') rest
      in \<lparr>href = scheme @ ''//'' @ host @ (if path = [] then ''/'' else path),
          protocol = scheme, hostname = host, origin = scheme @ ''//'' @ host\<rparr>)"

definition simpleParse :: "string \<Rightarrow> url_parts option" where
  "simpleParse s =
     (if startsWith s ''https://'' then Some (simpleUrl ''https:'' (drop 8 s))
      else if startsWith s ''http://'' then Some (simpleUrl ''http:'' (drop 7 s))
      else None)"

definition okReply :: "string \<Rightarrow> reply" where
  "okReply txt =
     \<lparr>r_status = 200, r_statusText = ''OK'', r_location = None,
      r_contentType = Some ''text/html; charset=utf-8'', r_text = Inr txt\<rparr>"

definition movedReply :: "string \<Rightarrow> reply" where
  "movedReply location =
     \<lparr>r_status = 301, r_statusText = ''Moved Permanently'', r_location = Some location,
      r_contentType = None, r_text = Inr []\<rparr>"

definition errorReply :: "nat \<Rightarrow> string \<Rightarrow> reply" where
  "errorReply code reason =
     \<lparr>r_status = code, r_statusText = reason, r_location = None,
      r_contentType = Some ''text/html; charset=utf-8'', r_text = Inr []\<rparr>"

definition unreachable :: js_error where
  "unreachable = JsError ''FetchError'' ''connect ECONNREFUSED''"

text \<open>
  A world of a few pages: a URL of the list is answered with its reply, whatever the
  limit, and any other request fails. Every page parses to the document given.
\<close>

definition siteWorld :: "(string \<times> reply) list \<Rightarrow> document \<Rightarrow> world" where
  "siteWorld pages doc =
     \<lparr>net = (\<lambda>url limit. case map_of pages url of Some rp \<Rightarrow> Inr rp | None \<Rightarrow> Inl unreachable),
      parse_url = simpleParse,
      resolve_url = (\<lambda>location base. Some location),
      parse_html = (\<lambda>html. Some doc),
      elapsed = 250\<rparr>"

text \<open>A page with an empty body and nothing else.\<close>

definition blankDoc :: document where
  "blankDoc =
     \<lparr>d_title = None, d_metaDescription = None, d_nav = None, d_headerLinks = 0,
      d_anchors = [], d_viewport = None, d_sheets = [], d_body = Some [],
      d_h1s = 0, d_headings = 0, d_images = [], d_lang = None, d_favicon = None,
      d_scripts = [], d_structuredData = False, d_mainContent = None\<rparr>"

text \<open>A text of \<open>n\<close> words.\<close>

definition lorem :: "nat \<Rightarrow> string" where
  "lorem n = concat (replicate n ''lorem '')"

text \<open>A robots.txt that closes the whole site to every crawler.\<close>

definition robotsBlockAll :: string where
  "robotsBlockAll = ''User-agent: *'' @ [CHR 0x0A] @ ''Disallow: /'' @ [CHR 0x0A]"

text \<open>
  A secure site of 900 words, the first of them a link to its privacy policy, whose
  robots.txt closes it to every crawler.
\<close>

definition contentDoc :: document where
  "contentDoc =
     blankDoc\<lparr>d_anchors := [\<lparr>a_href = Some ''https://example.com/privacy-policy'',
                              a_text = ''lorem ''\<rparr>],
               d_body := Some (lorem 900)\<rparr>"

definition homeHtml :: string where
  "homeHtml =
     ''<!DOCTYPE html><html><head></head><body><a href=https://example.com/privacy-policy>lorem </a>'' @
     lorem 899 @ ''</body></html>''"

definition blockedSite :: world where
  "blockedSite =
     siteWorld [(''https://example.com/'', okReply homeHtml),
                (''https://example.com/robots.txt'', okReply robotsBlockAll)] contentDoc"

text \<open>
  The same page at a host whose name starts with \<open>http\<close>. Asked for as
  \<open>httpbin.org\<close>, with no scheme, the redirect check takes the name for a URL with
  a scheme, and the URL parser throws.
\<close>

definition httpbinSite :: world where
  "httpbinSite = siteWorld [(''https://httpbin.org/'', okReply homeHtml)] contentDoc"

text \<open>A site served over plain HTTP: no link at all and 200 words.\<close>

definition insecureDoc :: document where
  "insecureDoc = blankDoc\<lparr>d_body := Some (lorem 200)\<rparr>"

definition insecureHtml :: string where
  "insecureHtml = ''<!DOCTYPE html><html><head></head><body>'' @ lorem 200 @ ''</body></html>''"

definition insecureSite :: world where
  "insecureSite = siteWorld [(''http://example.com/'', okReply insecureHtml)] insecureDoc"

text \<open>
  Two robots.txt files that let the crawlers in, one without and one with a sitemap
  line, and a secure site that serves a given robots.txt.
\<close>

definition robotsNoSitemap :: string where
  "robotsNoSitemap = ''User-agent: *'' @ [CHR 0x0A] @ ''Disallow: /private'' @ [CHR 0x0A]"

definition robotsWithSitemap :: string where
  "robotsWithSitemap =
     ''User-agent: *'' @ [CHR 0x0A] @ ''Allow: /'' @ [CHR 0x0A] @
     ''Sitemap: https://example.com/sitemap.xml'' @ [CHR 0x0A]"

definition openSite :: "string \<Rightarrow> world" where
  "openSite robots =
     siteWorld [(''https://example.com/'', okReply []),
                (''https://example.com/robots.txt'', okReply robots)] blankDoc"

text \<open>
  A site whose plain-HTTP address moves to the secure one, a site with a chain of five
  redirects, and a site whose secure address answers 503 while the plain one works.
\<close>

definition redirectSite :: world where
  "redirectSite =
     siteWorld [(''http://example.com/'', movedReply ''https://example.com/''),
                (''https://example.com/'', okReply [])] blankDoc"

definition chainSite :: world where
  "chainSite =
     siteWorld [(''http://example.com/0'', movedReply ''http://example.com/1''),
                (''http://example.com/1'', movedReply ''http://example.com/2''),
                (''http://example.com/2'', movedReply ''http://example.com/3''),
                (''http://example.com/3'', movedReply ''http://example.com/4''),
                (''http://example.com/4'', movedReply ''http://example.com/5''),
                (''http://example.com/5'', okReply [])] blankDoc"

definition fallbackSite :: world where
  "fallbackSite =
     siteWorld [(''https://example.com/'', errorReply 503 ''Service Unavailable''),
                (''http://example.com/'', okReply [])] blankDoc"

section \<open>Quantities the properties speak of\<close>

text \<open>
  The value \<open>finalScore\<close> is given first, before the penalties and the cap:
  the rounded percentage of the score in the total weight.
\<close>

definition initialScore :: "state \<Rightarrow> int" where
  "initialScore st = percentScore (score st) (totalPossibleWeight (checks st))"

text \<open>The names of the checks in the order the source declares them.\<close>

definition registryNames :: "string list" where
  "registryNames =
     [''Secure Connection (HTTPS/SSL)'', ''HTTPS Redirect Check'', ''SEO Title Tag'',
      ''Meta Description'', ''Robots.txt Configuration'', ''Navigation Structure'',
      ''Privacy Policy Page'', ''Terms of Service/Use Page'',
      ''About Us & Contact Information'', ''Mobile Responsiveness'', ''Content Volume'',
      ''Heading Structure (SEO)'', ''Image Optimization'', ''Language Declaration'',
      ''Favicon Present'', ''Page Load Speed Indicator'', ''Error Page Detection'',
      ''Social Media Integration'', ''Google Analytics Installed'', ''Ads.txt Presence'',
      ''Structured Data (Schema.org)'', ''Main Content Volume'',
      ''Content Originality & Quality'', ''Content Policy Compliance'',
      ''User Experience & Site Design'']"

text \<open>
  The five checks whose name has one of the four critical substrings, each with the
  status the harness records for it.
\<close>

definition criticalStatuses :: "world \<Rightarrow> string \<Rightarrow> string \<Rightarrow> document \<Rightarrow> (string \<times> status) list" where
  "criticalStatuses w i f d =
     [(''Secure Connection (HTTPS/SSL)'', recorded (secureConnection f)),
      (''HTTPS Redirect Check'', recorded (httpsRedirect w i f)),
      (''Privacy Policy Page'', recorded (privacyPolicy d)),
      (''Content Volume'', recorded (contentVolume d)),
      (''Main Content Volume'', recorded (mainContentVolume d))]"

text \<open>
  The URL that \<open>n\<close> redirects lead to from \<open>url\<close>, as the loop reads a redirect: a
  reply to a manual request with a status in [300, 400) and a location header that
  resolves. \<open>None\<close> when there are fewer than \<open>n\<close> redirects.
\<close>

fun redirectsTo :: "world \<Rightarrow> nat \<Rightarrow> string \<Rightarrow> string option" where
  "redirectsTo w 0 url = Some url"
| "redirectsTo w (Suc n) url =
     (case fst (request w url (Some 30000)) of
        Inl e \<Rightarrow> None
      | Inr response \<Rightarrow>
          (case (if r_status (rs_reply response) \<ge> 300 \<and> r_status (rs_reply response) < 400
                 then r_location (rs_reply response) else None) of
             None \<Rightarrow> None
           | Some location \<Rightarrow>
               (case resolve_url w location url of
                  None \<Rightarrow> None
                | Some next_url \<Rightarrow> redirectsTo w n next_url)))"

text \<open>
  \<open>targetUrl\<close> as the handler computes it from the \<open>url\<close> of the request.
\<close>

definition targetUrlOf :: "string \<Rightarrow> string" where
  "targetUrlOf initialUrl =
     (if startsWith (trim initialUrl) ''http://'' \<or> startsWith (trim initialUrl) ''https://''
      then trim initialUrl else ''https://'' @ trim initialUrl)"

section \<open>Lemmas on the harness\<close>

lemma exec_eq:
  "exec e st = \<lparr>checks = checks st @ [entry_result e], score = score st + gain (entry_result e)\<rparr>"
proof (cases e)
  case (Run nm cat w checkFn)
  then show ?thesis
    by (cases checkFn) (auto simp: runCheck_def gain_def recorded_def split: prod.splits)
next
  case (Robots r)
  then show ?thesis by (simp add: pushRobots_def gain_def)
next
  case (Ads r)
  then show ?thesis by (simp add: pushAds_def gain_def)
next
  case (ManualEntry nm msg)
  then show ?thesis by (simp add: pushManual_def gain_def)
qed

lemma fold_exec:
  "fold exec es st =
     \<lparr>checks = checks st @ map entry_result es,
      score = score st + sum_list (map (gain \<circ> entry_result) es)\<rparr>"
proof (induction es arbitrary: st)
  case Nil
  show ?case by simp
next
  case (Cons e es)
  have "fold exec (e # es) st = fold exec es (exec e st)" by simp
  also have "\<dots> =
      \<lparr>checks = checks (exec e st) @ map entry_result es,
       score = score (exec e st) + sum_list (map (gain \<circ> entry_result) es)\<rparr>"
    by (rule Cons.IH)
  also have "exec e st =
      \<lparr>checks = checks st @ [entry_result e], score = score st + gain (entry_result e)\<rparr>"
    by (rule exec_eq)
  finally show ?case by (simp add: add.assoc)
qed

lemma checks_runChecks:
  "checks (runChecks w i f d) = map entry_result (registry w i f d)"
  by (simp add: runChecks_def fold_exec)

lemma score_runChecks:
  "score (runChecks w i f d) = sum_list (map (gain \<circ> entry_result) (registry w i f d))"
  by (simp add: runChecks_def fold_exec)

section \<open>Lemmas on retrieval\<close>

lemmas site_defs = siteWorld_def simpleParse_def simpleUrl_def Let_def

lemma parse_example:
  "simpleParse ''https://example.com/'' =
     Some \<lparr>href = ''https://example.com/'', protocol = ''https:'', hostname = ''example.com'',
           origin = ''https://example.com''\<rparr>"
  by (simp add: simpleParse_def simpleUrl_def Let_def)

lemma replace_prefix:
  "startsWith s pat \<Longrightarrow> replace_first s pat rep = rep @ drop (length pat) s"
  by (cases s; cases pat) simp_all

lemma five: "(5::nat) = Suc (Suc (Suc (Suc (Suc 0))))"
  by simp

lemma request_answered:
  assumes "map_option href (parse_url w url) = Some h" and "net w h limit = Inr rp"
  shows "request w url limit = (Inr \<lparr>rs_url = h, rs_reply = rp\<rparr>, [h])"
  using assms by (auto simp: request_def split: option.splits)

lemma request_failed:
  assumes "map_option href (parse_url w url) = Some h" and "net w h limit = Inl e"
  shows "request w url limit = (Inl e, [h])"
  using assms by (auto simp: request_def split: option.splits)

text \<open>
  A site answers a URL with a reply that has no location header: two requests, both to
  the normalised URL, which is also the URL of the response.
\<close>

lemma fetch_plain:
  assumes "map_option href (parse_url w url) = Some h"
    and "\<forall>limit. net w h limit = Inr rp" and "r_location rp = None"
  shows "fetchWithRedirects w url 5 = (Inr \<lparr>rs_url = h, rs_reply = rp\<rparr>, [h, h])"
proof -
  have r: "request w url limit = (Inr \<lparr>rs_url = h, rs_reply = rp\<rparr>, [h])" for limit
    using assms(1,2) by (simp add: request_answered)
  have "redirectLoop w 5 url = (Inr url, [h])"
    unfolding five using assms(3) by (simp add: r)
  moreover have "fetch_follow w None 20 url = (Inr \<lparr>rs_url = h, rs_reply = rp\<rparr>, [h])"
    using assms(3) by (simp add: fetch_follow.simps r)
  ultimately show ?thesis by (simp add: fetchWithRedirects_def)
qed

lemma fetch_refused:
  assumes "map_option href (parse_url w url) = Some h"
    and "net w h (Some 30000) = Inl e" and "err_name e \<noteq> ''AbortError''"
  shows "fetchWithRedirects w url 5 = (Inl e, [h])"
proof -
  have "request w url (Some 30000) = (Inl e, [h])"
    using assms(1,2) by (rule request_failed)
  then have "redirectLoop w 5 url = (Inl e, [h])"
    unfolding five using assms(3) by simp
  then show ?thesis by (simp add: fetchWithRedirects_def)
qed

lemma length_lorem: "length (lorem n) = 6 * n"
  by (induction n) (simp_all add: lorem_def)

lemma insecure_fetch:
  "fetchWithRedirects insecureSite ''http://example.com/'' 5 =
     (Inr \<lparr>rs_url = ''http://example.com/'', rs_reply = okReply insecureHtml\<rparr>,
      [''http://example.com/'', ''http://example.com/''])"
  by (rule fetch_plain) (simp_all add: insecureSite_def site_defs okReply_def)

lemma insecure_parse:
  "parse_url insecureSite ''http://example.com/'' =
     Some \<lparr>href = ''http://example.com/'', protocol = ''http:'', hostname = ''example.com'',
           origin = ''http://example.com''\<rparr>"
  by (simp add: insecureSite_def site_defs)

lemma analyze_insecureSite:
  "analyzeUrl insecureSite ''http://example.com/'' =
     Json (makeReport ''http://example.com/''
             (runChecks insecureSite ''http://example.com/'' ''http://example.com/'' insecureDoc))"
proof -
  have page: "fst (fetchPage insecureSite ''http://example.com/'') =
      Inr \<lparr>rs_url = ''http://example.com/'', rs_reply = okReply insecureHtml\<rparr>"
    by (simp add: fetchPage_def insecure_fetch rs_ok_def okReply_def)
  have t: "trim ''http://example.com/'' = ''http://example.com/''"
    by (simp add: trim_def is_ws_def)
  have p: "parse_html insecureSite insecureHtml = Some insecureDoc"
    by (simp add: insecureSite_def siteWorld_def)
  have h: "\<not> length insecureHtml < 100" "insecureHtml \<noteq> []"
    by (simp_all add: insecureHtml_def length_lorem)
  show ?thesis
    by (simp add: analyzeUrl_def Let_def t p insecure_parse page okReply_def h)
qed

lemma analyze_blockedSite:
  "analyzeUrl blockedSite ''https://example.com/'' =
     Json (makeReport ''https://example.com/''
             (runChecks blockedSite ''https://example.com/'' ''https://example.com/'' contentDoc))"
proof -
  have "fetchWithRedirects blockedSite ''https://example.com/'' 5 =
      (Inr \<lparr>rs_url = ''https://example.com/'', rs_reply = okReply homeHtml\<rparr>,
       [''https://example.com/'', ''https://example.com/''])"
    by (rule fetch_plain) (simp_all add: blockedSite_def site_defs okReply_def)
  then have page: "fst (fetchPage blockedSite ''https://example.com/'') =
      Inr \<lparr>rs_url = ''https://example.com/'', rs_reply = okReply homeHtml\<rparr>"
    by (simp add: fetchPage_def rs_ok_def okReply_def)
  have t: "trim ''https://example.com/'' = ''https://example.com/''"
    by (simp add: trim_def is_ws_def)
  have p: "parse_url blockedSite ''https://example.com/'' = simpleParse ''https://example.com/''"
    "parse_html blockedSite homeHtml = Some contentDoc"
    by (simp_all add: blockedSite_def siteWorld_def)
  have h: "\<not> length homeHtml < 100" "homeHtml \<noteq> []" by (simp_all add: homeHtml_def)
  show ?thesis
    by (simp add: analyzeUrl_def Let_def t p parse_example page okReply_def h)
qed

section \<open>Heading structure\<close>

text \<open>
  C8, as the code has it. The check passes exactly when the document has one H1 and at
  least three headings. With one H1 and fewer than three headings, and with more than
  one H1, it warns. With no H1 it fails (it does not warn). It never throws.
\<close>

theorem heading_structure_outcomes:
  "(recorded (headingStructure doc) = Pass \<longleftrightarrow> d_h1s doc = 1 \<and> 3 \<le> d_headings doc) \<and>
   (d_h1s doc = 1 \<and> d_headings doc < 3 \<longrightarrow> recorded (headingStructure doc) = Warn) \<and>
   (1 < d_h1s doc \<longrightarrow> recorded (headingStructure doc) = Warn) \<and>
   (d_h1s doc = 0 \<longrightarrow> recorded (headingStructure doc) = Fail) \<and>
   (\<exists>r. headingStructure doc = Inr r)"
proof -
  consider (none) "d_h1s doc = 0" | (one) "d_h1s doc = 1" | (many) "1 < d_h1s doc"
    by linarith
  then show ?thesis
  proof cases
    case none
    then show ?thesis by (simp add: headingStructure_def recorded_def)
  next
    case one
    then show ?thesis
      by (cases "3 \<le> d_headings doc") (simp_all add: headingStructure_def recorded_def)
  next
    case many
    then show ?thesis by (simp add: headingStructure_def recorded_def)
  qed
qed

theorem heading_structure_outcomes_witness:
  "recorded (headingStructure (blankDoc\<lparr>d_h1s := 1, d_headings := 4\<rparr>)) = Pass \<and>
   recorded (headingStructure (blankDoc\<lparr>d_h1s := 1, d_headings := 2\<rparr>)) = Warn \<and>
   recorded (headingStructure (blankDoc\<lparr>d_h1s := 2, d_headings := 5\<rparr>)) = Warn \<and>
   recorded (headingStructure (blankDoc\<lparr>d_h1s := 0, d_headings := 5\<rparr>)) = Fail"
  using heading_structure_outcomes [of "blankDoc\<lparr>d_h1s := 1, d_headings := 4\<rparr>"]
    heading_structure_outcomes [of "blankDoc\<lparr>d_h1s := 1, d_headings := 2\<rparr>"]
    heading_structure_outcomes [of "blankDoc\<lparr>d_h1s := 2, d_headings := 5\<rparr>"]
    heading_structure_outcomes [of "blankDoc\<lparr>d_h1s := 0, d_headings := 5\<rparr>"]
  by simp

text \<open>
  The claim as stated (a document with no H1 gets a warning) fails on a page with five
  headings, none of them an H1.
\<close>

theorem heading_no_h1_counterexample:
  "d_h1s (blankDoc\<lparr>d_headings := 5\<rparr>) = 0 \<and>
   recorded (headingStructure (blankDoc\<lparr>d_headings := 5\<rparr>)) \<noteq> Warn"
  by (simp add: blankDoc_def headingStructure_def recorded_def)

section \<open>Image optimization\<close>

text \<open>
  C10. On a document with no \<open>img\<close> element the check returns a warning: the source
  leaves before it divides by the number of images, and the harness records the
  status \<open>warn\<close>. On any document the check returns and does not throw.
\<close>

theorem image_optimization_no_images:
  "d_images doc = [] \<Longrightarrow>
     imageOptimization doc =
       Inr (Warn, ''No images found. Visual content improves user engagement.'') \<and>
     status (last (checks (runCheck ''Image Optimization'' CAT_PERFORMANCE 4
                             (imageOptimization doc) st))) = Warn \<and>
     (\<forall>doc'. \<exists>r. imageOptimization doc' = Inr r)"
proof -
  assume none: "d_images doc = []"
  then have warn: "imageOptimization doc =
      Inr (Warn, ''No images found. Visual content improves user engagement.'')"
    by (simp add: imageOptimization_def)
  have pushed: "status (last (checks (runCheck ''Image Optimization'' CAT_PERFORMANCE 4
      (imageOptimization doc) st))) = Warn"
    unfolding warn by (simp add: runCheck_def)
  have returns: "\<exists>r. imageOptimization doc' = Inr r" for doc'
    by (simp add: imageOptimization_def Let_def)
  from warn pushed returns show ?thesis by blast
qed

theorem image_optimization_no_images_witness:
  "d_images blankDoc = [] \<and>
   imageOptimization blankDoc =
     Inr (Warn, ''No images found. Visual content improves user engagement.'') \<and>
   status (last (checks (runCheck ''Image Optimization'' CAT_PERFORMANCE 4
                           (imageOptimization blankDoc) \<lparr>checks = [], score = 0\<rparr>))) = Warn"
proof -
  have h: "d_images blankDoc = []" by (simp add: blankDoc_def)
  show ?thesis
    using h image_optimization_no_images [OF h, of "\<lparr>checks = [], score = 0\<rparr>"] by blast
qed


section \<open>Isolation of the checks\<close>

lemma analyze_run:
  assumes "i \<noteq> []" and "parse_url w (targetUrlOf i) = Some u"
    and "fst (fetchPage w (targetUrlOf i)) = Inr r"
    and "r_contentType (rs_reply r) = Some ct" and "str_includes ct ''text/html''"
    and "r_text (rs_reply r) = Inr html" and "100 \<le> length html"
    and "parse_html w html = Some doc"
  shows "analyzeUrl w i = Json (makeReport (rs_url r) (runChecks w i (rs_url r) doc))"
proof -
  have "html \<noteq> []" "\<not> length html < 100" using assms(7) by auto
  then show ?thesis
    using assms(1-6,8) by (simp add: analyzeUrl_def targetUrlOf_def Let_def)
qed

lemma thrown_entry:
  "entry_result (Run nm cat wt (Inl err)) =
     \<lparr>name = nm, category = cat, weight = Some wt, status = Fail,
      message = ''Check failed: '' @ err\<rparr>"
  by (simp add: recorded_def)

lemma length_registry: "length (registry w i f d) = 25"
  by (simp add: registry_def)

text \<open>
  C6. Every run of the checks has exactly the 25 entries of the declared checks, in the
  order of the declarations, each entry being what its own statement pushes, whatever
  the other check functions do. A check function that throws leaves, at its own place in
  the run, the entry with status \<open>fail\<close> and the message \<open>Check failed: ...\<close>, and
  the checks after it are still evaluated and pushed; this is said for every place of
  the run and for each of the six check functions that can throw. When retrieval and
  parsing succeed, the handler answers with the report of that complete run: a throwing
  check function does not make it answer with an error. (The robots.txt and ads.txt
  probes catch their own errors and return a warning, so they do not throw.)
\<close>

theorem registry_isolation:
  "checks (runChecks w i f d) = map entry_result (registry w i f d) \<and>
   length (checks (runChecks w i f d)) = 25 \<and>
   map name (checks (runChecks w i f d)) = registryNames \<and>
   (k < 25 \<and> registry w i f d ! k = Run nm cat wt (Inl err) \<longrightarrow>
      checks (runChecks w i f d) ! k =
        \<lparr>name = nm, category = cat, weight = Some wt, status = Fail,
         message = ''Check failed: '' @ err\<rparr> \<and>
      (\<forall>j. k < j \<and> j < 25 \<longrightarrow>
         checks (runChecks w i f d) ! j = entry_result (registry w i f d ! j))) \<and>
   (httpsRedirect w i f = Inl err \<longrightarrow>
      checks (runChecks w i f d) ! 1 =
        \<lparr>name = ''HTTPS Redirect Check'', category = CAT_AUTO, weight = Some 15,
         status = Fail, message = ''Check failed: '' @ err\<rparr>) \<and>
   (privacyPolicy d = Inl err \<longrightarrow>
      checks (runChecks w i f d) ! 6 =
        \<lparr>name = ''Privacy Policy Page'', category = CAT_STRUCT_ACC, weight = Some 25,
         status = Fail, message = ''Check failed: '' @ err\<rparr>) \<and>
   (contentVolume d = Inl err \<longrightarrow>
      checks (runChecks w i f d) ! 10 =
        \<lparr>name = ''Content Volume'', category = CAT_CONTENT, weight = Some 20,
         status = Fail, message = ''Check failed: '' @ err\<rparr>) \<and>
   (errorPageDetection d = Inl err \<longrightarrow>
      checks (runChecks w i f d) ! 16 =
        \<lparr>name = ''Error Page Detection'', category = CAT_STRUCT_ACC, weight = Some 5,
         status = Fail, message = ''Check failed: '' @ err\<rparr>) \<and>
   (socialMedia d = Inl err \<longrightarrow>
      checks (runChecks w i f d) ! 17 =
        \<lparr>name = ''Social Media Integration'', category = CAT_CONTENT, weight = Some 3,
         status = Fail, message = ''Check failed: '' @ err\<rparr>) \<and>
   (mainContentVolume d = Inl err \<longrightarrow>
      checks (runChecks w i f d) ! 21 =
        \<lparr>name = ''Main Content Volume'', category = CAT_CONTENT, weight = Some 15,
         status = Fail, message = ''Check failed: '' @ err\<rparr>) \<and>
   checks (runChecks w i f d) ! 24 =
     entry_result (ManualEntry ''User Experience & Site Design''
       ''Ensure professional design, easy navigation, fast loading, and good user experience.'') \<and>
   (i \<noteq> [] \<and> parse_url w (targetUrlOf i) = Some u \<and>
    fst (fetchPage w (targetUrlOf i)) = Inr r \<and>
    r_contentType (rs_reply r) = Some ct \<and> str_includes ct ''text/html'' \<and>
    r_text (rs_reply r) = Inr html \<and> 100 \<le> length html \<and> parse_html w html = Some doc \<longrightarrow>
      analyzeUrl w i = Json (makeReport (rs_url r) (runChecks w i (rs_url r) doc)) \<and>
      rp_checks (makeReport (rs_url r) (runChecks w i (rs_url r) doc)) =
        map entry_result (registry w i (rs_url r) doc))"
proof -
  let ?cs = "checks (runChecks w i f d)"
  have all: "?cs = map entry_result (registry w i f d)" by (rule checks_runChecks)
  have len: "length ?cs = 25" unfolding all by (simp add: length_registry)
  have names: "map name ?cs = registryNames"
    by (simp add: checks_runChecks registry_def registryNames_def)
  have nth: "?cs ! j = entry_result (registry w i f d ! j)" if "j < 25" for j
    unfolding all using that by (simp add: length_registry)
  have generic: "k < 25 \<and> registry w i f d ! k = Run nm cat wt (Inl err) \<longrightarrow>
      ?cs ! k =
        \<lparr>name = nm, category = cat, weight = Some wt, status = Fail,
         message = ''Check failed: '' @ err\<rparr> \<and>
      (\<forall>j. k < j \<and> j < 25 \<longrightarrow> ?cs ! j = entry_result (registry w i f d ! j))"
    using nth thrown_entry by simp
  have e1: "httpsRedirect w i f = Inl err \<longrightarrow>
      ?cs ! 1 = \<lparr>name = ''HTTPS Redirect Check'', category = CAT_AUTO, weight = Some 15,
         status = Fail, message = ''Check failed: '' @ err\<rparr>"
    by (simp add: all registry_def recorded_def)
  have e6: "privacyPolicy d = Inl err \<longrightarrow>
      ?cs ! 6 = \<lparr>name = ''Privacy Policy Page'', category = CAT_STRUCT_ACC, weight = Some 25,
         status = Fail, message = ''Check failed: '' @ err\<rparr>"
    by (simp add: all registry_def recorded_def)
  have e10: "contentVolume d = Inl err \<longrightarrow>
      ?cs ! 10 = \<lparr>name = ''Content Volume'', category = CAT_CONTENT, weight = Some 20,
         status = Fail, message = ''Check failed: '' @ err\<rparr>"
    by (simp add: all registry_def recorded_def)
  have e16: "errorPageDetection d = Inl err \<longrightarrow>
      ?cs ! 16 = \<lparr>name = ''Error Page Detection'', category = CAT_STRUCT_ACC, weight = Some 5,
         status = Fail, message = ''Check failed: '' @ err\<rparr>"
    by (simp add: all registry_def recorded_def)
  have e17: "socialMedia d = Inl err \<longrightarrow>
      ?cs ! 17 = \<lparr>name = ''Social Media Integration'', category = CAT_CONTENT, weight = Some 3,
         status = Fail, message = ''Check failed: '' @ err\<rparr>"
    by (simp add: all registry_def recorded_def)
  have e21: "mainContentVolume d = Inl err \<longrightarrow>
      ?cs ! 21 = \<lparr>name = ''Main Content Volume'', category = CAT_CONTENT, weight = Some 15,
         status = Fail, message = ''Check failed: '' @ err\<rparr>"
    by (simp add: all registry_def recorded_def)
  have e24: "?cs ! 24 =
     entry_result (ManualEntry ''User Experience & Site Design''
       ''Ensure professional design, easy navigation, fast loading, and good user experience.'')"
    unfolding all registry_def by simp
  have handler: "i \<noteq> [] \<and> parse_url w (targetUrlOf i) = Some u \<and>
    fst (fetchPage w (targetUrlOf i)) = Inr r \<and>
    r_contentType (rs_reply r) = Some ct \<and> str_includes ct ''text/html'' \<and>
    r_text (rs_reply r) = Inr html \<and> 100 \<le> length html \<and> parse_html w html = Some doc \<longrightarrow>
      analyzeUrl w i = Json (makeReport (rs_url r) (runChecks w i (rs_url r) doc)) \<and>
      rp_checks (makeReport (rs_url r) (runChecks w i (rs_url r) doc)) =
        map entry_result (registry w i (rs_url r) doc)"
    using analyze_run [of i w u r ct html doc]
    by (simp add: makeReport_def checks_runChecks)
  from all len names generic e1 e6 e10 e16 e17 e21 e24 handler show ?thesis by blast
qed

lemma httpbin_fetch:
  "fetchWithRedirects httpbinSite ''https://httpbin.org'' 5 =
     (Inr \<lparr>rs_url = ''https://httpbin.org/'', rs_reply = okReply homeHtml\<rparr>,
      [''https://httpbin.org/'', ''https://httpbin.org/''])"
  by (rule fetch_plain) (simp_all add: httpbinSite_def site_defs okReply_def)

theorem registry_isolation_witness:
  "analyzeUrl httpbinSite ''httpbin.org'' =
     Json (makeReport ''https://httpbin.org/''
             (runChecks httpbinSite ''httpbin.org'' ''https://httpbin.org/'' contentDoc)) \<and>
   httpsRedirect httpbinSite ''httpbin.org'' ''https://httpbin.org/'' = Inl ''Invalid URL'' \<and>
   checks (runChecks httpbinSite ''httpbin.org'' ''https://httpbin.org/'' contentDoc) ! 1 =
     \<lparr>name = ''HTTPS Redirect Check'', category = CAT_AUTO, weight = Some 15,
      status = Fail, message = ''Check failed: Invalid URL''\<rparr> \<and>
   length (checks (runChecks httpbinSite ''httpbin.org'' ''https://httpbin.org/'' contentDoc)) = 25 \<and>
   map name (checks (runChecks httpbinSite ''httpbin.org'' ''https://httpbin.org/'' contentDoc)) =
     registryNames"
proof -
  let ?r = "\<lparr>rs_url = ''https://httpbin.org/'', rs_reply = okReply homeHtml\<rparr>"
  have t: "targetUrlOf ''httpbin.org'' = ''https://httpbin.org''"
    by (simp add: targetUrlOf_def trim_def is_ws_def)
  have h1: "''httpbin.org'' \<noteq> []" by simp
  have h2: "parse_url httpbinSite (targetUrlOf ''httpbin.org'') =
      Some (simpleUrl ''https:'' ''httpbin.org'')"
    by (simp add: t httpbinSite_def siteWorld_def simpleParse_def)
  have h3: "fst (fetchPage httpbinSite (targetUrlOf ''httpbin.org'')) = Inr ?r"
    by (simp add: t fetchPage_def httpbin_fetch rs_ok_def okReply_def)
  have h4: "r_contentType (rs_reply ?r) = Some ''text/html; charset=utf-8''"
    by (simp add: okReply_def)
  have h5: "str_includes ''text/html; charset=utf-8'' ''text/html''" by simp
  have h6: "r_text (rs_reply ?r) = Inr homeHtml" by (simp add: okReply_def)
  have h7: "100 \<le> length homeHtml" by (simp add: homeHtml_def)
  have h8: "parse_html httpbinSite homeHtml = Some contentDoc"
    by (simp add: httpbinSite_def siteWorld_def)
  have thrown: "httpsRedirect httpbinSite ''httpbin.org'' ''https://httpbin.org/'' =
      Inl ''Invalid URL''"
    by (simp add: httpsRedirect_def httpbinSite_def siteWorld_def simpleParse_def invalidUrl_def)
  note inst = registry_isolation [where w = httpbinSite and i = "''httpbin.org''"
      and f = "''https://httpbin.org/''" and d = contentDoc and err = "''Invalid URL''"
      and k = 1 and nm = "''HTTPS Redirect Check''" and cat = CAT_AUTO and wt = 15
      and u = "simpleUrl ''https:'' ''httpbin.org''" and r = ?r
      and ct = "''text/html; charset=utf-8''" and html = homeHtml and doc = contentDoc]
  from inst h1 h2 h3 h4 h5 h6 h7 h8
  have "analyzeUrl httpbinSite ''httpbin.org'' =
     Json (makeReport (rs_url ?r) (runChecks httpbinSite ''httpbin.org'' (rs_url ?r) contentDoc))"
    by blast
  then have a: "analyzeUrl httpbinSite ''httpbin.org'' =
     Json (makeReport ''https://httpbin.org/''
             (runChecks httpbinSite ''httpbin.org'' ''https://httpbin.org/'' contentDoc))"
    by simp
  from inst thrown
  have "checks (runChecks httpbinSite ''httpbin.org'' ''https://httpbin.org/'' contentDoc) ! 1 =
     \<lparr>name = ''HTTPS Redirect Check'', category = CAT_AUTO, weight = Some 15,
      status = Fail, message = ''Check failed: '' @ ''Invalid URL''\<rparr>"
    by blast
  then have b: "checks (runChecks httpbinSite ''httpbin.org'' ''https://httpbin.org/'' contentDoc) ! 1 =
     \<lparr>name = ''HTTPS Redirect Check'', category = CAT_AUTO, weight = Some 15,
      status = Fail, message = ''Check failed: Invalid URL''\<rparr>"
    by simp
  have c: "length (checks (runChecks httpbinSite ''httpbin.org'' ''https://httpbin.org/''
        contentDoc)) = 25"
    "map name (checks (runChecks httpbinSite ''httpbin.org'' ''https://httpbin.org/''
        contentDoc)) = registryNames"
    using inst by blast+
  from a thrown b c show ?thesis by blast
qed

section \<open>Weights\<close>

lemma recorded_not_manual:
  "recorded (secureConnection f) \<noteq> Manual"
  "recorded (httpsRedirect w i f) \<noteq> Manual"
  "recorded (seoTitle d) \<noteq> Manual"
  "recorded (metaDescription d) \<noteq> Manual"
  "recorded (navigationStructure d) \<noteq> Manual"
  "recorded (privacyPolicy d) \<noteq> Manual"
  "recorded (termsOfService d) \<noteq> Manual"
  "recorded (aboutContact d) \<noteq> Manual"
  "recorded (mobileResponsiveness d) \<noteq> Manual"
  "recorded (contentVolume d) \<noteq> Manual"
  "recorded (headingStructure d) \<noteq> Manual"
  "recorded (imageOptimization d) \<noteq> Manual"
  "recorded (languageDeclaration d) \<noteq> Manual"
  "recorded (faviconPresent d) \<noteq> Manual"
  "recorded (pageLoadSpeed t) \<noteq> Manual"
  "recorded (errorPageDetection d) \<noteq> Manual"
  "recorded (socialMedia d) \<noteq> Manual"
  "recorded (googleAnalytics d) \<noteq> Manual"
  "recorded (structuredData d) \<noteq> Manual"
  "recorded (mainContentVolume d) \<noteq> Manual"
  by (simp_all add: recorded_def secureConnection_def httpsRedirect_def seoTitle_def
      metaDescription_def navigationStructure_def privacyPolicy_def termsOfService_def
      aboutContact_def mobileResponsiveness_def contentVolume_def headingStructure_def
      imageOptimization_def languageDeclaration_def faviconPresent_def pageLoadSpeed_def
      errorPageDetection_def socialMedia_def googleAnalytics_def structuredData_def
      mainContentVolume_def Let_def split: option.splits)

lemma probe_not_manual:
  "fst (robotsCheck w f) \<noteq> Manual"
  "fst (adsTxtCheck w f) \<noteq> Manual"
  by (simp_all add: robotsCheck_def adsTxtCheck_def split: sum.splits)

lemma weights_of_run:
  "map weight (checks (runChecks w i f d)) =
     map Some [20, 15, 8, 6, 12, 10, 25, 8, 12, 10, 20, 5, 4, 3, 2, 3, 5, 3, 7, 10, 6, 15] @
     [None, None, None]"
  by (simp add: checks_runChecks registry_def)

lemma manual_of_run:
  "map (\<lambda>c. status c = Manual) (checks (runChecks w i f d)) =
     replicate 22 False @ replicate 3 True"
  by (simp add: checks_runChecks registry_def recorded_not_manual probe_not_manual
      eval_nat_numeral)

lemma automated_of_run:
  "automatedChecks (checks (runChecks w i f d)) = take 22 (checks (runChecks w i f d))"
  by (simp add: automatedChecks_def checks_runChecks registry_def recorded_not_manual
      probe_not_manual)

lemma total_of_run:
  "totalPossibleWeight (checks (runChecks w i f d)) = Some 209"
  by (simp add: totalPossibleWeight_def automated_of_run)
     (simp add: checks_runChecks registry_def add_weight_def)

text \<open>
  C7, as the code has it. In every run the 22 checks that are not manual carry the
  weight of their declaration, each above 0; the three manual entries, the last three,
  carry no weight at all (the property is missing, it is not 0); and
  \<open>totalPossibleWeight\<close> is the sum of the weights of the checks that are not manual,
  which is 209.
\<close>

theorem run_weights:
  "map weight (checks (runChecks w i f d)) =
     map Some [20, 15, 8, 6, 12, 10, 25, 8, 12, 10, 20, 5, 4, 3, 2, 3, 5, 3, 7, 10, 6, 15] @
     [None, None, None] \<and>
   map (\<lambda>c. status c = Manual) (checks (runChecks w i f d)) =
     replicate 22 False @ replicate 3 True \<and>
   totalPossibleWeight (checks (runChecks w i f d)) = Some 209 \<and>
   sum_list (map (\<lambda>c. case weight c of None \<Rightarrow> 0 | Some x \<Rightarrow> x)
               (automatedChecks (checks (runChecks w i f d)))) = 209"
proof (intro conjI)
  show "map weight (checks (runChecks w i f d)) =
     map Some [20, 15, 8, 6, 12, 10, 25, 8, 12, 10, 20, 5, 4, 3, 2, 3, 5, 3, 7, 10, 6, 15] @
     [None, None, None]"
    by (rule weights_of_run)
  show "map (\<lambda>c. status c = Manual) (checks (runChecks w i f d)) =
     replicate 22 False @ replicate 3 True"
    by (rule manual_of_run)
  show "totalPossibleWeight (checks (runChecks w i f d)) = Some 209"
    by (rule total_of_run)
  show "sum_list (map (\<lambda>c. case weight c of None \<Rightarrow> 0 | Some x \<Rightarrow> x)
               (automatedChecks (checks (runChecks w i f d)))) = 209"
    by (simp add: automated_of_run) (simp add: checks_runChecks registry_def)
qed

text \<open>
  The claim as stated (a manual entry has weight 0) fails on the run for an empty page:
  its last entry is manual and has no weight.
\<close>

theorem manual_weight_counterexample:
  "status (last (checks (runChecks (siteWorld [] blankDoc) ''example.com''
                           ''http://example.com/'' blankDoc))) = Manual \<and>
   weight (last (checks (runChecks (siteWorld [] blankDoc) ''example.com''
                           ''http://example.com/'' blankDoc))) \<noteq> Some 0"
  by (simp add: checks_runChecks registry_def)

section \<open>Monotonicity of the score\<close>

lemma percentScore_mono: "sc \<le> sc' \<Longrightarrow> percentScore sc tw \<le> percentScore sc' tw"
proof (cases tw)
  case None
  then show ?thesis by (simp add: percentScore_def)
next
  case (Some t)
  assume le: "sc \<le> sc'"
  show ?thesis
  proof (cases "t > 0")
    case True
    then have "sc / of_nat t \<le> sc' / of_nat t"
      using le by (simp add: divide_right_mono)
    then have "sc / of_nat t * 100 \<le> sc' / of_nat t * 100"
      by (rule mult_right_mono) simp
    then show ?thesis using Some True by (simp add: percentScore_def round_mono)
  next
    case False
    then show ?thesis using Some by (simp add: percentScore_def)
  qed
qed

lemma foldl_add_weight:
  "map weight xs = map weight ys \<Longrightarrow> foldl add_weight a xs = foldl add_weight a ys"
proof (induction xs arbitrary: ys a)
  case Nil
  then show ?case by simp
next
  case (Cons x xs)
  then obtain y ys' where ys: "ys = y # ys'" "weight x = weight y" "map weight xs = map weight ys'"
    by (cases ys) auto
  have "add_weight a x = add_weight a y" unfolding add_weight_def ys(2) ..
  then show ?case using Cons.IH [OF ys(3)] ys(1) by simp
qed

lemma total_change:
  assumes "weight c' = weight c" "status c \<noteq> Manual" "status c' \<noteq> Manual"
  shows "totalPossibleWeight (xs @ c # ys) = totalPossibleWeight (xs @ c' # ys)"
  unfolding totalPossibleWeight_def
  by (rule foldl_add_weight) (use assms in \<open>simp add: automatedChecks_def\<close>)

lemma gain_raise:
  assumes "weight c' = weight c" "(status c, status c') \<in> {(Fail, Warn), (Warn, Pass)}"
  shows "gain c \<le> gain c'"
  using assms by (auto simp: gain_def split: option.splits)

text \<open>
  C9. Take any sequence of check statements and replace one of them by a statement for
  the same check (same weight) whose status is one step better, \<open>fail\<close> to \<open>warn\<close> or
  \<open>warn\<close> to \<open>pass\<close>, all the others as they are. The score before the penalties and
  the cap does not decrease. It is monotone in the raw score for any total weight.
  (The quotient and the rounding are exact in the model.)
\<close>

theorem score_monotone:
  assumes "weight (entry_result e') = weight (entry_result e)"
    and "(status (entry_result e), status (entry_result e')) \<in> {(Fail, Warn), (Warn, Pass)}"
  shows "initialScore (fold exec (es @ e # es') st) \<le> initialScore (fold exec (es @ e' # es') st) \<and>
         (\<forall>sc sc' tw. sc \<le> sc' \<longrightarrow> percentScore sc tw \<le> percentScore sc' tw)"
proof -
  let ?c = "entry_result e" and ?c' = "entry_result e'"
  have nm: "status ?c \<noteq> Manual" "status ?c' \<noteq> Manual" using assms(2) by auto
  have tot: "totalPossibleWeight (checks st @ map entry_result (es @ e # es')) =
             totalPossibleWeight (checks st @ map entry_result (es @ e' # es'))"
    using total_change [OF assms(1) nm, of "checks st @ map entry_result es" "map entry_result es'"]
    by simp
  have "gain ?c \<le> gain ?c'" by (rule gain_raise [OF assms])
  then have sc: "score (fold exec (es @ e # es') st) \<le> score (fold exec (es @ e' # es') st)"
    by (simp only: fold_exec) simp
  have "initialScore (fold exec (es @ e # es') st) \<le> initialScore (fold exec (es @ e' # es') st)"
  proof -
    have "checks (fold exec (es @ e # es') st) = checks st @ map entry_result (es @ e # es')"
      "checks (fold exec (es @ e' # es') st) = checks st @ map entry_result (es @ e' # es')"
      by (simp_all only: fold_exec state.simps)
    with tot have "totalPossibleWeight (checks (fold exec (es @ e # es') st)) =
        totalPossibleWeight (checks (fold exec (es @ e' # es') st))"
      by simp
    then show ?thesis
      unfolding initialScore_def using percentScore_mono [OF sc] by simp
  qed
  then show ?thesis using percentScore_mono by blast
qed

theorem score_monotone_witness:
  "initialScore (fold exec
     ([Run ''Privacy Policy Page'' CAT_STRUCT_ACC 25 (Inr (Pass, ''found''))] @
      Run ''Content Volume'' CAT_CONTENT 20 (Inr (Fail, ''low'')) # [])
     \<lparr>checks = [], score = 0\<rparr>)
   \<le> initialScore (fold exec
     ([Run ''Privacy Policy Page'' CAT_STRUCT_ACC 25 (Inr (Pass, ''found''))] @
      Run ''Content Volume'' CAT_CONTENT 20 (Inr (Warn, ''moderate'')) # [])
     \<lparr>checks = [], score = 0\<rparr>)"
proof -
  let ?e = "Run ''Content Volume'' CAT_CONTENT 20 (Inr (Fail, ''low''))"
  let ?e' = "Run ''Content Volume'' CAT_CONTENT 20 (Inr (Warn, ''moderate''))"
  have h1: "weight (entry_result ?e') = weight (entry_result ?e)" by simp
  have h2: "(status (entry_result ?e), status (entry_result ?e')) \<in> {(Fail, Warn), (Warn, Pass)}"
    by (simp add: recorded_def)
  show ?thesis
    using score_monotone [OF h1 h2,
        of "[Run ''Privacy Policy Page'' CAT_STRUCT_ACC 25 (Inr (Pass, ''found''))]" "[]"
           "\<lparr>checks = [], score = 0\<rparr>"]
    by (rule conjunct1)
qed


section \<open>Critical failures\<close>

text \<open>
  The critical checks of a run are the failed ones among five: the names of the other
  twenty checks have none of the four substrings.
\<close>

lemma critical_names_of_run:
  "map name (criticalChecks (checks (runChecks w i f d))) =
     map fst (filter (\<lambda>p. snd p = Fail) (criticalStatuses w i f d))"
  by (simp add: criticalChecks_def checks_runChecks registry_def isCritical_def
      criticalStatuses_def)

lemma split_ws_lorem: "split_ws (lorem n) = replicate n ''lorem'' @ [[]]"
proof (induction n)
  case 0
  show ?case by (simp add: lorem_def split_ws.simps [of "[]"])
next
  case (Suc n)
  have l: "lorem (Suc n) = ''lorem '' @ lorem n" by (simp add: lorem_def)
  have d: "dropWhile is_ws (lorem n) = lorem n"
    by (cases n) (simp_all add: lorem_def is_ws_def)
  have "split_ws (lorem (Suc n)) = ''lorem'' # split_ws (lorem n)"
    unfolding l by (subst split_ws.simps) (simp add: is_ws_def d)
  then show ?case using Suc.IH by simp
qed

lemma wordCount_lorem: "wordCount (lorem n) = n"
  by (simp add: wordCount_def split_ws_lorem)

lemma show_nat_75: "show_nat 75 = ''75''"
  by code_simp

lemma show_nat_60: "show_nat 60 = ''60''"
  by code_simp

lemma final_capped: "criticalChecks cs \<noteq> [] \<Longrightarrow> finalScore cs sc \<le> 65"
  by (simp add: finalScore_def adjusted_def criticalCap_def)

lemma isBlocked_robotsBlockAll: "isBlocked robotsBlockAll"
  by code_simp

lemma robots_blocked:
  "robotsCheck blockedSite ''https://example.com/'' =
     (Fail, ''robots.txt blocks search engine crawlers - this will prevent AdSense approval.'')"
  by (simp add: robotsCheck_def probe_def blockedSite_def site_defs request_def
      fetch_follow.simps okReply_def isRedirect_def rs_ok_def isBlocked_robotsBlockAll)

lemma privacy_contentDoc: "recorded (privacyPolicy contentDoc) = Pass"
  by (simp add: privacyPolicy_def contentDoc_def blankDoc_def findLink_def linkMatches_def
      toLowerCase_def lower_char_def recorded_def Let_def)

lemma critical_statuses_blocked:
  "criticalStatuses blockedSite ''https://example.com/'' ''https://example.com/'' contentDoc =
     [(''Secure Connection (HTTPS/SSL)'', Pass), (''HTTPS Redirect Check'', Pass),
      (''Privacy Policy Page'', Pass), (''Content Volume'', Warn),
      (''Main Content Volume'', Warn)]"
proof -
  have "recorded (secureConnection ''https://example.com/'') = Pass"
    by (simp add: secureConnection_def recorded_def)
  moreover have "recorded (httpsRedirect blockedSite ''https://example.com/''
      ''https://example.com/'') = Pass"
    by (simp add: httpsRedirect_def blockedSite_def siteWorld_def parse_example recorded_def)
  moreover have "recorded (contentVolume contentDoc) = Warn"
    by (simp add: contentVolume_def contentDoc_def blankDoc_def wordCount_lorem recorded_def)
  moreover have "recorded (mainContentVolume contentDoc) = Warn"
    by (simp add: mainContentVolume_def contentDoc_def blankDoc_def wordCount_lorem recorded_def)
  ultimately show ?thesis
    by (simp add: criticalStatuses_def privacy_contentDoc)
qed

text \<open>
  C1, at a site whose robots.txt closes it to every crawler. The handler answers with
  the report of the run of the checks on its page. The robots.txt check fails,
  and its entry, the fifth of the run, is named \<open>Robots.txt Configuration\<close>. The
  filter looks for \<open>robots.txt\<close> with a small \<open>r\<close>, which that name does not
  contain: the run has no critical check, the penalty step and the cap leave the
  score and the notes as they are. In no run at all is the robots.txt entry among the
  critical checks. For any list of check results the penalty step does what the claim
  says of it: with no critical check nothing changes, with \<open>n\<close> of them \<open>15 n\<close> is
  taken from the score, not below 0, and one note is added.
\<close>

theorem robots_block_not_critical:
  "analyzeUrl blockedSite ''https://example.com/'' =
     Json (makeReport ''https://example.com/''
             (runChecks blockedSite ''https://example.com/'' ''https://example.com/''
                contentDoc)) \<and>
   fst (robotsCheck blockedSite ''https://example.com/'') = Fail \<and>
   name (checks (runChecks blockedSite ''https://example.com/'' ''https://example.com/''
                   contentDoc) ! 4) = ''Robots.txt Configuration'' \<and>
   status (checks (runChecks blockedSite ''https://example.com/'' ''https://example.com/''
                     contentDoc) ! 4) = Fail \<and>
   criticalChecks (checks (runChecks blockedSite ''https://example.com/''
                             ''https://example.com/'' contentDoc)) = [] \<and>
   criticalPenalty (checks (runChecks blockedSite ''https://example.com/''
                              ''https://example.com/'' contentDoc)) (p, notes) = (p, notes) \<and>
   criticalCap (checks (runChecks blockedSite ''https://example.com/''
                          ''https://example.com/'' contentDoc)) (p, notes) = (p, notes) \<and>
   ''Robots.txt Configuration'' \<notin> set (map name (criticalChecks (checks (runChecks w i f d)))) \<and>
   criticalPenalty cs (p, notes) =
     (if criticalChecks cs = [] then (p, notes)
      else (max 0 (p - int (length (criticalChecks cs) * 15)),
            notes @ [''Critical issues detected: -'' @
                     show_nat (length (criticalChecks cs) * 15) @ ''%'']))"
proof -
  let ?run = "runChecks blockedSite ''https://example.com/'' ''https://example.com/'' contentDoc"
  have step: "criticalPenalty cs (p, notes) =
     (if criticalChecks cs = [] then (p, notes)
      else (max 0 (p - int (length (criticalChecks cs) * 15)),
            notes @ [''Critical issues detected: -'' @
                     show_nat (length (criticalChecks cs) * 15) @ ''%'']))"
    by (simp add: criticalPenalty_def Let_def)
  have "map name (criticalChecks (checks ?run)) = []"
    by (simp add: critical_names_of_run critical_statuses_blocked)
  then have none: "criticalChecks (checks ?run) = []" by simp
  have fifth: "name (checks ?run ! 4) = ''Robots.txt Configuration''"
      "status (checks ?run ! 4) = Fail"
    by (simp_all add: checks_runChecks registry_def robots_blocked)
  have never: "''Robots.txt Configuration'' \<notin>
      set (map name (criticalChecks (checks (runChecks w i f d))))"
    unfolding critical_names_of_run criticalStatuses_def by auto
  have here: "criticalPenalty (checks ?run) (p, notes) = (p, notes)"
      "criticalCap (checks ?run) (p, notes) = (p, notes)"
    using none by (simp_all add: criticalPenalty_def criticalCap_def)
  have "fst (robotsCheck blockedSite ''https://example.com/'') = Fail"
    by (simp add: robots_blocked)
  with analyze_blockedSite none fifth never here step show ?thesis by blast
qed

text \<open>
  C2, as the code has it. On an insecure page (the final URL is not \<open>https\<close>) with no
  privacy link and 200 words of body text, four checks fail and are critical:
  \<open>Secure Connection (HTTPS/SSL)\<close>, \<open>HTTPS Redirect Check\<close>, \<open>Privacy Policy Page\<close>
  and \<open>Content Volume\<close>. \<open>Main Content Volume\<close> is the fifth when it fails, as it does
  when the page has no main region. So there are 4 or 5 critical failures, the penalty
  is 60 or 75, and the final score is at most 65.
\<close>

theorem insecure_page_critical:
  assumes "\<not> startsWith f ''https://''"
    and "\<forall>u. parse_url w f = Some u \<longrightarrow> protocol u \<noteq> ''https:''"
    and "findLink [''privacy'', ''policy'', ''privacy-policy''] d = None"
    and "d_body d = Some t" and "wordCount t = 200"
  shows "map name (criticalChecks (checks (runChecks w i f d))) =
           [''Secure Connection (HTTPS/SSL)'', ''HTTPS Redirect Check'', ''Privacy Policy Page'',
            ''Content Volume''] @
           (if recorded (mainContentVolume d) = Fail then [''Main Content Volume''] else []) \<and>
         (d_mainContent d = None \<longrightarrow> length (criticalChecks (checks (runChecks w i f d))) = 5) \<and>
         length (criticalChecks (checks (runChecks w i f d))) \<in> {4, 5} \<and>
         criticalPenalty (checks (runChecks w i f d)) (p, []) =
           (max 0 (p - 15 * int (length (criticalChecks (checks (runChecks w i f d))))),
            [''Critical issues detected: -'' @
             (if recorded (mainContentVolume d) = Fail then ''75'' else ''60'') @ ''%'']) \<and>
         finalScore (checks (runChecks w i f d)) sc \<le> 65"
proof -
  let ?cs = "checks (runChecks w i f d)"
  have s1: "recorded (secureConnection f) = Fail"
    using assms(1) by (simp add: secureConnection_def recorded_def)
  have s2: "recorded (httpsRedirect w i f) = Fail"
    using assms(2) by (auto simp: httpsRedirect_def recorded_def split: option.splits)
  have s3: "recorded (privacyPolicy d) = Fail"
    using assms(3) by (simp add: privacyPolicy_def recorded_def)
  have s4: "recorded (contentVolume d) = Fail"
    using assms(4,5) by (simp add: contentVolume_def recorded_def)
  have names: "map name (criticalChecks ?cs) =
           [''Secure Connection (HTTPS/SSL)'', ''HTTPS Redirect Check'', ''Privacy Policy Page'',
            ''Content Volume''] @
           (if recorded (mainContentVolume d) = Fail then [''Main Content Volume''] else [])"
    by (simp add: critical_names_of_run criticalStatuses_def s1 s2 s3 s4)
  have "length (map name (criticalChecks ?cs)) =
      (if recorded (mainContentVolume d) = Fail then 5 else 4)"
    unfolding names by simp
  then have len: "length (criticalChecks ?cs) =
      (if recorded (mainContentVolume d) = Fail then 5 else 4)"
    by simp
  have main: "d_mainContent d = None \<longrightarrow> recorded (mainContentVolume d) = Fail"
    using assms(4,5) by (simp add: mainContentVolume_def recorded_def)
  have pen: "criticalPenalty ?cs (p, []) =
           (max 0 (p - 15 * int (length (criticalChecks ?cs))),
            [''Critical issues detected: -'' @
             (if recorded (mainContentVolume d) = Fail then ''75'' else ''60'') @ ''%''])"
    unfolding criticalPenalty_def len
    by (simp add: show_nat_75 show_nat_60)
  have "criticalChecks ?cs \<noteq> []" using len by (auto split: if_splits)
  then have cap: "finalScore ?cs sc \<le> 65" by (rule final_capped)
  show ?thesis using names len main pen cap by simp
qed

theorem insecure_page_critical_witness:
  "wordCount (lorem 200) = 200 \<and>
   length (criticalChecks (checks (runChecks insecureSite ''http://example.com/''
                                     ''http://example.com/'' insecureDoc))) = 5 \<and>
   finalScore (checks (runChecks insecureSite ''http://example.com/'' ''http://example.com/''
                         insecureDoc)) 0 \<le> 65"
proof -
  have h1: "\<not> startsWith ''http://example.com/'' ''https://''" by simp
  have h2: "\<forall>u. parse_url insecureSite ''http://example.com/'' = Some u \<longrightarrow>
      protocol u \<noteq> ''https:''"
    by (simp add: insecure_parse)
  have h3: "findLink [''privacy'', ''policy'', ''privacy-policy''] insecureDoc = None"
    by (simp add: findLink_def insecureDoc_def blankDoc_def)
  have h4: "d_body insecureDoc = Some (lorem 200)" by (simp add: insecureDoc_def)
  have h5: "wordCount (lorem 200) = 200" by (rule wordCount_lorem)
  have h6: "d_mainContent insecureDoc = None" by (simp add: insecureDoc_def blankDoc_def)
  show ?thesis
    using h5 h6 insecure_page_critical [OF h1 h2 h3 h4 h5, of "''http://example.com/''" 0 0]
    by simp
qed

text \<open>
  The claim as stated (exactly 3 critical failures and a penalty of 45) fails on the
  insecure example site: the run has five critical checks and the note says 75.
\<close>

theorem insecure_page_counterexample:
  "analyzeUrl insecureSite ''http://example.com/'' =
     Json (makeReport ''http://example.com/''
             (runChecks insecureSite ''http://example.com/'' ''http://example.com/''
                insecureDoc)) \<and>
   \<not> startsWith ''http://example.com/'' ''https://'' \<and>
   d_anchors insecureDoc = [] \<and>
   map_option wordCount (d_body insecureDoc) = Some 200 \<and>
   map name (criticalChecks (checks (runChecks insecureSite ''http://example.com/''
                                       ''http://example.com/'' insecureDoc))) =
     [''Secure Connection (HTTPS/SSL)'', ''HTTPS Redirect Check'', ''Privacy Policy Page'',
      ''Content Volume'', ''Main Content Volume''] \<and>
   length (criticalChecks (checks (runChecks insecureSite ''http://example.com/''
                                     ''http://example.com/'' insecureDoc))) \<noteq> 3 \<and>
   hd (rp_penalties (makeReport ''http://example.com/''
         (runChecks insecureSite ''http://example.com/'' ''http://example.com/'' insecureDoc))) =
     ''Critical issues detected: -75%''"
proof -
  let ?run = "runChecks insecureSite ''http://example.com/'' ''http://example.com/'' insecureDoc"
  have st: "criticalStatuses insecureSite ''http://example.com/'' ''http://example.com/''
      insecureDoc =
     [(''Secure Connection (HTTPS/SSL)'', Fail), (''HTTPS Redirect Check'', Fail),
      (''Privacy Policy Page'', Fail), (''Content Volume'', Fail),
      (''Main Content Volume'', Fail)]"
    by (simp add: criticalStatuses_def secureConnection_def httpsRedirect_def insecure_parse
        privacyPolicy_def findLink_def contentVolume_def mainContentVolume_def insecureDoc_def
        blankDoc_def wordCount_lorem recorded_def)
  have names: "map name (criticalChecks (checks ?run)) =
     [''Secure Connection (HTTPS/SSL)'', ''HTTPS Redirect Check'', ''Privacy Policy Page'',
      ''Content Volume'', ''Main Content Volume'']"
    by (simp add: critical_names_of_run st)
  have "length (map name (criticalChecks (checks ?run))) = 5" unfolding names by simp
  then have len: "length (criticalChecks (checks ?run)) = 5" by simp
  have "hd (snd (adjusted (checks ?run) (score ?run))) = ''Critical issues detected: -75%''"
    by (simp add: adjusted_def criticalCap_def failurePenalty_def criticalPenalty_def len
        show_nat_75 Let_def)
  then show ?thesis
    using names len analyze_insecureSite
    by (simp add: makeReport_def insecureDoc_def blankDoc_def wordCount_lorem)
qed


section \<open>The robots.txt check\<close>

lemma probe_openSite:
  "probe (openSite robots) ''https://example.com/'' ''/robots.txt'' =
     Inr \<lparr>rs_url = ''https://example.com/robots.txt'', rs_reply = okReply robots\<rparr>"
  by (simp add: probe_def openSite_def site_defs request_def fetch_follow.simps
      okReply_def isRedirect_def)

lemma probe_insecureSite:
  "probe insecureSite ''http://example.com/'' ''/robots.txt'' = Inl unreachable"
  by (simp add: probe_def insecure_parse)
     (simp add: insecureSite_def site_defs request_def fetch_follow.simps)

lemma robotsNoSitemap_facts: "\<not> isBlocked robotsNoSitemap" "\<not> hasSitemap robotsNoSitemap"
  by code_simp+

lemma robotsWithSitemap_facts: "\<not> isBlocked robotsWithSitemap" "hasSitemap robotsWithSitemap"
  by code_simp+

text \<open>
  C3, as the code has it. The entry of the robots.txt check has weight 12. When
  robots.txt is fetched with a success status and read: if one of the three
  disallow-all patterns (any agent, Googlebot, AdsBot-Google) matches, the check fails
  and adds nothing to the score; otherwise it passes and adds the full 12, with a
  sitemap line and without one alike (only the message differs). When robots.txt is
  not reachable (the request fails, the status is not a success, or the body cannot be
  read) the check warns and adds 6.
\<close>

theorem robots_outcomes:
  "(probe w f ''/robots.txt'' = Inr res \<and> rs_ok res \<and> r_text (rs_reply res) = Inr txt \<longrightarrow>
      (isBlocked txt \<longrightarrow>
         fst (robotsCheck w f) = Fail \<and>
         score (pushRobots (robotsCheck w f) st) = score st) \<and>
      (\<not> isBlocked txt \<and> hasSitemap txt \<longrightarrow>
         robotsCheck w f = (Pass, ''robots.txt configured correctly with sitemap reference.'') \<and>
         score (pushRobots (robotsCheck w f) st) = score st + 12) \<and>
      (\<not> isBlocked txt \<and> \<not> hasSitemap txt \<longrightarrow>
         robotsCheck w f =
           (Pass, ''robots.txt allows crawling but consider adding sitemap reference.'') \<and>
         score (pushRobots (robotsCheck w f) st) = score st + 12)) \<and>
   (probe w f ''/robots.txt'' = Inr res \<and> (\<not> rs_ok res \<or> r_text (rs_reply res) = Inl e) \<longrightarrow>
      fst (robotsCheck w f) = Warn \<and>
      score (pushRobots (robotsCheck w f) st) = score st + 6) \<and>
   (probe w f ''/robots.txt'' = Inl e \<longrightarrow>
      fst (robotsCheck w f) = Warn \<and>
      score (pushRobots (robotsCheck w f) st) = score st + 6) \<and>
   weight (last (checks (pushRobots (robotsCheck w f) st))) = Some 12 \<and>
   (isBlocked txt \<longleftrightarrow>
      somewhere (blocking_at ''*'') txt \<or> somewhere (blocking_at ''Googlebot'') txt \<or>
      somewhere (blocking_at ''AdsBot-Google'') txt)"
proof -
  have agents: "isBlocked txt \<longleftrightarrow>
      somewhere (blocking_at ''*'') txt \<or> somewhere (blocking_at ''Googlebot'') txt \<or>
      somewhere (blocking_at ''AdsBot-Google'') txt"
    by (simp add: isBlocked_def blockingPatterns_def)
  have reachable: "probe w f ''/robots.txt'' = Inr res \<and> rs_ok res \<and>
      r_text (rs_reply res) = Inr txt \<longrightarrow>
      (isBlocked txt \<longrightarrow>
         fst (robotsCheck w f) = Fail \<and>
         score (pushRobots (robotsCheck w f) st) = score st) \<and>
      (\<not> isBlocked txt \<and> hasSitemap txt \<longrightarrow>
         robotsCheck w f = (Pass, ''robots.txt configured correctly with sitemap reference.'') \<and>
         score (pushRobots (robotsCheck w f) st) = score st + 12) \<and>
      (\<not> isBlocked txt \<and> \<not> hasSitemap txt \<longrightarrow>
         robotsCheck w f =
           (Pass, ''robots.txt allows crawling but consider adding sitemap reference.'') \<and>
         score (pushRobots (robotsCheck w f) st) = score st + 12)"
    by (simp add: robotsCheck_def pushRobots_def)
  have unread: "probe w f ''/robots.txt'' = Inr res \<and>
      (\<not> rs_ok res \<or> r_text (rs_reply res) = Inl e) \<longrightarrow>
      fst (robotsCheck w f) = Warn \<and>
      score (pushRobots (robotsCheck w f) st) = score st + 6"
    by (auto simp: robotsCheck_def pushRobots_def)
  have failed: "probe w f ''/robots.txt'' = Inl e \<longrightarrow>
      fst (robotsCheck w f) = Warn \<and>
      score (pushRobots (robotsCheck w f) st) = score st + 6"
    by (simp add: robotsCheck_def pushRobots_def)
  have wt: "weight (last (checks (pushRobots (robotsCheck w f) st))) = Some 12"
    by (simp add: pushRobots_def)
  from reachable unread failed wt agents show ?thesis by blast
qed

theorem robots_outcomes_witness:
  "robotsCheck (openSite robotsWithSitemap) ''https://example.com/'' =
     (Pass, ''robots.txt configured correctly with sitemap reference.'') \<and>
   score (pushRobots (robotsCheck (openSite robotsWithSitemap) ''https://example.com/'')
            \<lparr>checks = [], score = 0\<rparr>) = 12 \<and>
   robotsCheck (openSite robotsNoSitemap) ''https://example.com/'' =
     (Pass, ''robots.txt allows crawling but consider adding sitemap reference.'') \<and>
   fst (robotsCheck (openSite robotsBlockAll) ''https://example.com/'') = Fail \<and>
   fst (robotsCheck insecureSite ''http://example.com/'') = Warn"
proof -
  let ?st = "\<lparr>checks = [], score = 0\<rparr>"
  let ?res = "\<lambda>robots. \<lparr>rs_url = ''https://example.com/robots.txt'', rs_reply = okReply robots\<rparr>"
  have a: "robotsCheck (openSite robotsWithSitemap) ''https://example.com/'' =
       (Pass, ''robots.txt configured correctly with sitemap reference.'') \<and>
     score (pushRobots (robotsCheck (openSite robotsWithSitemap) ''https://example.com/'')
              ?st) = 12"
    using robots_outcomes [of "openSite robotsWithSitemap" "''https://example.com/''"
        "?res robotsWithSitemap" robotsWithSitemap ?st unreachable]
    by (simp add: probe_openSite rs_ok_def okReply_def robotsWithSitemap_facts pushRobots_def)
  have b: "robotsCheck (openSite robotsNoSitemap) ''https://example.com/'' =
       (Pass, ''robots.txt allows crawling but consider adding sitemap reference.'')"
    using robots_outcomes [of "openSite robotsNoSitemap" "''https://example.com/''"
        "?res robotsNoSitemap" robotsNoSitemap ?st unreachable]
    by (simp add: probe_openSite rs_ok_def okReply_def robotsNoSitemap_facts)
  have c: "fst (robotsCheck (openSite robotsBlockAll) ''https://example.com/'') = Fail"
    using robots_outcomes [of "openSite robotsBlockAll" "''https://example.com/''"
        "?res robotsBlockAll" robotsBlockAll ?st unreachable]
    by (simp add: probe_openSite rs_ok_def okReply_def isBlocked_robotsBlockAll)
  have d: "fst (robotsCheck insecureSite ''http://example.com/'') = Warn"
    using robots_outcomes [of insecureSite "''http://example.com/''" "?res []" "[]" ?st
        unreachable]
    by (simp add: probe_insecureSite)
  from a b c d show ?thesis by blast
qed

text \<open>
  The claim as stated (half weight when the sitemap line is missing) fails on a site
  whose robots.txt has no sitemap line: the check passes and adds 12 to the score,
  not 6.
\<close>

theorem robots_half_weight_counterexample:
  "probe (openSite robotsNoSitemap) ''https://example.com/'' ''/robots.txt'' =
     Inr \<lparr>rs_url = ''https://example.com/robots.txt'', rs_reply = okReply robotsNoSitemap\<rparr> \<and>
   \<not> isBlocked robotsNoSitemap \<and> \<not> hasSitemap robotsNoSitemap \<and>
   fst (robotsCheck (openSite robotsNoSitemap) ''https://example.com/'') = Pass \<and>
   score (pushRobots (robotsCheck (openSite robotsNoSitemap) ''https://example.com/'')
            \<lparr>checks = [], score = 0\<rparr>) = 12 \<and>
   score (pushRobots (robotsCheck (openSite robotsNoSitemap) ''https://example.com/'')
            \<lparr>checks = [], score = 0\<rparr>) \<noteq> 6"
  by (simp add: robotsCheck_def pushRobots_def probe_openSite robotsNoSitemap_facts
      rs_ok_def okReply_def)


section \<open>Redirects\<close>

lemma request_one:
  assumes "fst (request w url limit) = Inr response"
  shows "\<exists>h. request w url limit = (Inr response, [h])"
  using assms by (auto simp: request_def split: option.splits sum.splits)

lemma loop_follows_chain:
  assumes "redirectsTo w n url = Some last_url"
    and "map_option href (parse_url w last_url) = Some final_url"
    and "net w final_url (Some 30000) = Inr rp" and "r_status rp = 200"
  shows "\<exists>reached reqs. redirectLoop w k url = (Inr reached, reqs) \<and>
           redirectsTo w (min n k) url = Some reached \<and> length reqs = min (n + 1) k"
  using assms(1)
proof (induction k arbitrary: n url)
  case 0
  show ?case by simp
next
  case (Suc k)
  show ?case
  proof (cases n)
    case 0
    with Suc.prems have "url = last_url" by simp
    then have "request w url (Some 30000) =
        (Inr \<lparr>rs_url = final_url, rs_reply = rp\<rparr>, [final_url])"
      using assms(2,3) by (simp add: request_answered)
    then show ?thesis using 0 assms(4) by simp
  next
    case (Suc m)
    with Suc.prems obtain response location next_url where
      step: "fst (request w url (Some 30000)) = Inr response"
        "(if r_status (rs_reply response) \<ge> 300 \<and> r_status (rs_reply response) < 400
          then r_location (rs_reply response) else None) = Some location"
        "resolve_url w location url = Some next_url"
        "redirectsTo w m next_url = Some last_url"
      by (auto split: sum.splits option.splits)
    from request_one [OF step(1)] obtain h where
      req: "request w url (Some 30000) = (Inr response, [h])"
      by blast
    from Suc.IH [OF step(4)] obtain reached reqs where
      ih: "redirectLoop w k next_url = (Inr reached, reqs)"
        "redirectsTo w (min m k) next_url = Some reached" "length reqs = min (m + 1) k"
      by blast
    have "redirectLoop w (Suc k) url = (Inr reached, h # reqs)"
      using req step(2,3) ih(1) by simp
    moreover have "redirectsTo w (min n (Suc k)) url = Some reached"
      using step ih(2) Suc by simp
    moreover have "length (h # reqs) = min (n + 1) (Suc k)"
      using ih(3) Suc by simp
    ultimately show ?thesis by blast
  qed
qed

text \<open>
  C4, as the code has it. When \<open>n\<close> redirects (\<open>n\<close> at most 5) lead from the URL to
  one that answers 200, \<open>fetchWithRedirects\<close> returns the response of that last URL;
  the URL of the response is the last URL as the URL parser normalises it (with no
  redirect, the requested URL as the parser normalises it). The loop makes one request
  per redirect and, when \<open>n\<close> is below 5, one more that sees the 200; then the function
  requests the last URL once again. That is \<open>n + 2\<close> requests for \<open>n\<close> below 5 and
  6 for \<open>n = 5\<close>.
\<close>

theorem redirects_then_ok:
  assumes "redirectsTo w n url = Some last_url" and "n \<le> 5"
    and "map_option href (parse_url w last_url) = Some final_url"
    and "\<forall>limit. net w final_url limit = Inr rp" and "r_status rp = 200"
  shows "fst (fetchWithRedirects w url 5) = Inr \<lparr>rs_url = final_url, rs_reply = rp\<rparr> \<and>
         length (snd (fetchWithRedirects w url 5)) = min (n + 1) 5 + 1 \<and>
         (n < 5 \<longrightarrow> length (snd (fetchWithRedirects w url 5)) = n + 2) \<and>
         last (snd (fetchWithRedirects w url 5)) = final_url"
proof -
  have m: "net w final_url (Some 30000) = Inr rp" "net w final_url None = Inr rp"
    using assms(4) by simp_all
  from loop_follows_chain [OF assms(1) assms(3) m(1) assms(5), of 5] obtain reached reqs where
    loop: "redirectLoop w 5 url = (Inr reached, reqs)"
      "redirectsTo w (min n 5) url = Some reached" "length reqs = min (n + 1) 5"
    by blast
  have "min n 5 = n" using assms(2) by simp
  with loop(2) assms(1) have reached: "reached = last_url" by simp
  have "\<not> isRedirect (r_status rp)" using assms(5) by (simp add: isRedirect_def)
  then have final: "fetch_follow w None 20 last_url =
      (Inr \<lparr>rs_url = final_url, rs_reply = rp\<rparr>, [final_url])"
    using request_answered [OF assms(3) m(2)] by (simp add: fetch_follow.simps)
  have "fetchWithRedirects w url 5 =
      (Inr \<lparr>rs_url = final_url, rs_reply = rp\<rparr>, reqs @ [final_url])"
    by (simp add: fetchWithRedirects_def loop(1) reached final)
  then show ?thesis using loop(3) by auto
qed

theorem redirects_then_ok_witness:
  "fst (fetchWithRedirects redirectSite ''http://example.com/'' 5) =
     Inr \<lparr>rs_url = ''https://example.com/'', rs_reply = okReply []\<rparr> \<and>
   length (snd (fetchWithRedirects redirectSite ''http://example.com/'' 5)) = 3 \<and>
   fst (fetchWithRedirects chainSite ''http://example.com/0'' 5) =
     Inr \<lparr>rs_url = ''http://example.com/5'', rs_reply = okReply []\<rparr> \<and>
   length (snd (fetchWithRedirects chainSite ''http://example.com/0'' 5)) = 6 \<and>
   fst (fetchWithRedirects redirectSite ''https://example.com'' 5) =
     Inr \<lparr>rs_url = ''https://example.com/'', rs_reply = okReply []\<rparr> \<and>
   length (snd (fetchWithRedirects redirectSite ''https://example.com'' 5)) = 2"
proof -
  have a1: "redirectsTo redirectSite (Suc 0) ''http://example.com/'' = Some ''https://example.com/''"
    by (simp add: redirectSite_def site_defs request_def movedReply_def)
  have a2: "map_option href (parse_url redirectSite ''https://example.com/'') =
      Some ''https://example.com/''"
    by (simp add: redirectSite_def site_defs)
  have a3: "\<forall>limit. net redirectSite ''https://example.com/'' limit = Inr (okReply [])"
    by (simp add: redirectSite_def siteWorld_def)
  have a4: "r_status (okReply []) = 200" by (simp add: okReply_def)
  have b1: "redirectsTo chainSite 5 ''http://example.com/0'' = Some ''http://example.com/5''"
    unfolding five by (simp add: chainSite_def site_defs request_def movedReply_def)
  have b2: "map_option href (parse_url chainSite ''http://example.com/5'') =
      Some ''http://example.com/5''"
    by (simp add: chainSite_def site_defs)
  have b3: "\<forall>limit. net chainSite ''http://example.com/5'' limit = Inr (okReply [])"
    by (simp add: chainSite_def siteWorld_def)
  have c1: "redirectsTo redirectSite 0 ''https://example.com'' = Some ''https://example.com''"
    by simp
  have c2: "map_option href (parse_url redirectSite ''https://example.com'') =
      Some ''https://example.com/''"
    by (simp add: redirectSite_def site_defs)
  have a: "fst (fetchWithRedirects redirectSite ''http://example.com/'' 5) =
       Inr \<lparr>rs_url = ''https://example.com/'', rs_reply = okReply []\<rparr> \<and>
     length (snd (fetchWithRedirects redirectSite ''http://example.com/'' 5)) = 3"
    using redirects_then_ok [OF a1 _ a2 a3 a4] by simp
  have b: "fst (fetchWithRedirects chainSite ''http://example.com/0'' 5) =
       Inr \<lparr>rs_url = ''http://example.com/5'', rs_reply = okReply []\<rparr> \<and>
     length (snd (fetchWithRedirects chainSite ''http://example.com/0'' 5)) = 6"
    using redirects_then_ok [OF b1 _ b2 b3 a4] by simp
  have c: "fst (fetchWithRedirects redirectSite ''https://example.com'' 5) =
       Inr \<lparr>rs_url = ''https://example.com/'', rs_reply = okReply []\<rparr> \<and>
     length (snd (fetchWithRedirects redirectSite ''https://example.com'' 5)) = 2"
    using redirects_then_ok [OF c1 _ c2 a3 a4] by simp
  from a b c show ?thesis by blast
qed

text \<open>
  The claim as stated (at most \<open>n + 1\<close> requests) fails with no redirect at all: a
  URL that answers 200 at once is requested twice.
\<close>

theorem direct_fetch_counterexample:
  "redirectsTo redirectSite 0 ''https://example.com/'' = Some ''https://example.com/'' \<and>
   (\<forall>limit. net redirectSite ''https://example.com/'' limit = Inr (okReply [])) \<and>
   r_status (okReply []) = 200 \<and>
   snd (fetchWithRedirects redirectSite ''https://example.com/'' 5) =
     [''https://example.com/'', ''https://example.com/''] \<and>
   \<not> length (snd (fetchWithRedirects redirectSite ''https://example.com/'' 5)) \<le> 0 + 1"
proof -
  have n: "\<forall>limit. net redirectSite ''https://example.com/'' limit = Inr (okReply [])"
    by (simp add: redirectSite_def siteWorld_def)
  have "fetchWithRedirects redirectSite ''https://example.com/'' 5 =
      (Inr \<lparr>rs_url = ''https://example.com/'', rs_reply = okReply []\<rparr>,
       [''https://example.com/'', ''https://example.com/''])"
    by (rule fetch_plain) (simp_all add: redirectSite_def site_defs okReply_def)
  then show ?thesis using n by (simp add: okReply_def)
qed

section \<open>Protocol fallback\<close>

text \<open>
  C5, as the code has it, for a target that starts with \<open>https://\<close>. When the first
  attempt throws (a network error or a timeout), the block answers 500 at once and
  makes no second attempt. When it returns a success, that response is used. When it
  returns another status, the block makes one second attempt on the same address with
  \<open>http://\<close> in front, and answers 500 when that throws or returns no success. So
  the 500 of the retrieval block comes exactly when the first attempt throws, or it
  returns no success and the second throws or returns no success.
\<close>

theorem protocol_fallback:
  assumes "startsWith targetUrl ''https://''"
  shows "(fetchWithRedirects w targetUrl 5 = (Inl e, reqs) \<longrightarrow>
            fetchPage w targetUrl = (Inl (failedToAccess (err_message e)), reqs)) \<and>
         (fetchWithRedirects w targetUrl 5 = (Inr r, reqs) \<and> rs_ok r \<longrightarrow>
            fetchPage w targetUrl = (Inr r, reqs)) \<and>
         (fetchWithRedirects w targetUrl 5 = (Inr r, reqs) \<and> \<not> rs_ok r \<longrightarrow>
            (fetchWithRedirects w (''http://'' @ drop 8 targetUrl) 5 = (Inl e', reqs') \<longrightarrow>
               fetchPage w targetUrl = (Inl (failedToAccess (err_message e')), reqs @ reqs')) \<and>
            (fetchWithRedirects w (''http://'' @ drop 8 targetUrl) 5 = (Inr r', reqs') \<and> \<not> rs_ok r' \<longrightarrow>
               fetchPage w targetUrl = (Inl (failedToAccess (statusError r')), reqs @ reqs')) \<and>
            (fetchWithRedirects w (''http://'' @ drop 8 targetUrl) 5 = (Inr r', reqs') \<and> rs_ok r' \<longrightarrow>
               fetchPage w targetUrl = (Inr r', reqs @ reqs'))) \<and>
         ((\<exists>msg. fst (fetchPage w targetUrl) = Inl msg) \<longleftrightarrow>
            (\<exists>x. fst (fetchWithRedirects w targetUrl 5) = Inl x) \<or>
            (\<exists>x. fst (fetchWithRedirects w targetUrl 5) = Inr x \<and> \<not> rs_ok x \<and>
                 ((\<exists>y. fst (fetchWithRedirects w (''http://'' @ drop 8 targetUrl) 5) = Inl y) \<or>
                  (\<exists>y. fst (fetchWithRedirects w (''http://'' @ drop 8 targetUrl) 5) = Inr y \<and>
                       \<not> rs_ok y)))) \<and>
         (fst (fetchPage w targetUrl) = Inl msg \<and> initialUrl \<noteq> [] \<and>
          trim initialUrl = targetUrl \<and> parse_url w targetUrl = Some u \<longrightarrow>
            analyzeUrl w initialUrl = Error500 msg None)"
proof -
  have rep: "replace_first targetUrl ''https://'' ''http://'' = ''http://'' @ drop 8 targetUrl"
  proof -
    have "length ''https://'' = 8" by simp
    with replace_prefix [OF assms, of "''http://''"] show ?thesis by (simp only:)
  qed
  obtain a reqs1 where first: "fetchWithRedirects w targetUrl 5 = (a, reqs1)"
    by (cases "fetchWithRedirects w targetUrl 5")
  obtain b reqs2 where second: "fetchWithRedirects w (''http://'' @ drop 8 targetUrl) 5 = (b, reqs2)"
    by (cases "fetchWithRedirects w (''http://'' @ drop 8 targetUrl) 5")
  have page: "fetchPage w targetUrl =
      (case a of
         Inl x \<Rightarrow> (Inl (failedToAccess (err_message x)), reqs1)
       | Inr x \<Rightarrow>
           if rs_ok x then (Inr x, reqs1)
           else (case b of
                   Inl y \<Rightarrow> (Inl (failedToAccess (err_message y)), reqs1 @ reqs2)
                 | Inr y \<Rightarrow>
                     if rs_ok y then (Inr y, reqs1 @ reqs2)
                     else (Inl (failedToAccess (statusError y)), reqs1 @ reqs2)))"
    using second by (simp add: fetchPage_def first rep assms split: sum.splits)
  have cases_ok: "(fetchWithRedirects w targetUrl 5 = (Inl e, reqs) \<longrightarrow>
            fetchPage w targetUrl = (Inl (failedToAccess (err_message e)), reqs)) \<and>
         (fetchWithRedirects w targetUrl 5 = (Inr r, reqs) \<and> rs_ok r \<longrightarrow>
            fetchPage w targetUrl = (Inr r, reqs)) \<and>
         (fetchWithRedirects w targetUrl 5 = (Inr r, reqs) \<and> \<not> rs_ok r \<longrightarrow>
            (fetchWithRedirects w (''http://'' @ drop 8 targetUrl) 5 = (Inl e', reqs') \<longrightarrow>
               fetchPage w targetUrl = (Inl (failedToAccess (err_message e')), reqs @ reqs')) \<and>
            (fetchWithRedirects w (''http://'' @ drop 8 targetUrl) 5 = (Inr r', reqs') \<and> \<not> rs_ok r' \<longrightarrow>
               fetchPage w targetUrl = (Inl (failedToAccess (statusError r')), reqs @ reqs')) \<and>
            (fetchWithRedirects w (''http://'' @ drop 8 targetUrl) 5 = (Inr r', reqs') \<and> rs_ok r' \<longrightarrow>
               fetchPage w targetUrl = (Inr r', reqs @ reqs')))"
    unfolding page first second by auto
  have iff: "(\<exists>msg. fst (fetchPage w targetUrl) = Inl msg) \<longleftrightarrow>
            (\<exists>x. fst (fetchWithRedirects w targetUrl 5) = Inl x) \<or>
            (\<exists>x. fst (fetchWithRedirects w targetUrl 5) = Inr x \<and> \<not> rs_ok x \<and>
                 ((\<exists>y. fst (fetchWithRedirects w (''http://'' @ drop 8 targetUrl) 5) = Inl y) \<or>
                  (\<exists>y. fst (fetchWithRedirects w (''http://'' @ drop 8 targetUrl) 5) = Inr y \<and>
                       \<not> rs_ok y)))"
    unfolding page first second by (cases a; cases b) auto
  have handler: "fst (fetchPage w targetUrl) = Inl msg \<and> initialUrl \<noteq> [] \<and>
          trim initialUrl = targetUrl \<and> parse_url w targetUrl = Some u \<longrightarrow>
            analyzeUrl w initialUrl = Error500 msg None"
    using assms by (simp add: analyzeUrl_def Let_def)
  from cases_ok iff handler show ?thesis by blast
qed

lemma fallback_first:
  "fetchWithRedirects fallbackSite ''https://example.com/'' 5 =
     (Inr \<lparr>rs_url = ''https://example.com/'',
           rs_reply = errorReply 503 ''Service Unavailable''\<rparr>,
      [''https://example.com/'', ''https://example.com/''])"
  by (rule fetch_plain) (simp_all add: fallbackSite_def site_defs errorReply_def)

lemma fallback_second:
  "fetchWithRedirects fallbackSite ''http://example.com/'' 5 =
     (Inr \<lparr>rs_url = ''http://example.com/'', rs_reply = okReply []\<rparr>,
      [''http://example.com/'', ''http://example.com/''])"
  by (rule fetch_plain) (simp_all add: fallbackSite_def site_defs okReply_def)

lemma refused_first:
  "fetchWithRedirects insecureSite ''https://example.com/'' 5 =
     (Inl unreachable, [''https://example.com/''])"
  by (rule fetch_refused) (simp_all add: insecureSite_def site_defs unreachable_def)

theorem protocol_fallback_witness:
  "startsWith ''https://example.com/'' ''https://'' \<and>
   fetchPage fallbackSite ''https://example.com/'' =
     (Inr \<lparr>rs_url = ''http://example.com/'', rs_reply = okReply []\<rparr>,
      [''https://example.com/'', ''https://example.com/'',
       ''http://example.com/'', ''http://example.com/'']) \<and>
   fetchPage insecureSite ''https://example.com/'' =
     (Inl (failedToAccess (err_message unreachable)), [''https://example.com/''])"
proof -
  have h: "startsWith ''https://example.com/'' ''https://''" by simp
  have d: "''http://'' @ drop 8 ''https://example.com/'' = ''http://example.com/''" by simp
  have no: "\<not> rs_ok \<lparr>rs_url = ''https://example.com/'',
      rs_reply = errorReply 503 ''Service Unavailable''\<rparr>"
    by (simp add: rs_ok_def errorReply_def)
  have yes: "rs_ok \<lparr>rs_url = ''http://example.com/'', rs_reply = okReply []\<rparr>"
    by (simp add: rs_ok_def okReply_def)
  from protocol_fallback [OF h, of fallbackSite unreachable
      "[''https://example.com/'', ''https://example.com/'']"
      "\<lparr>rs_url = ''https://example.com/'', rs_reply = errorReply 503 ''Service Unavailable''\<rparr>"
      unreachable "[''http://example.com/'', ''http://example.com/'']"
      "\<lparr>rs_url = ''http://example.com/'', rs_reply = okReply []\<rparr>"]
  have retried: "fetchPage fallbackSite ''https://example.com/'' =
     (Inr \<lparr>rs_url = ''http://example.com/'', rs_reply = okReply []\<rparr>,
      [''https://example.com/'', ''https://example.com/''] @
      [''http://example.com/'', ''http://example.com/''])"
    unfolding d using fallback_first fallback_second no yes by blast
  from protocol_fallback [OF h, of insecureSite unreachable "[''https://example.com/'']"]
  have thrown: "fetchPage insecureSite ''https://example.com/'' =
     (Inl (failedToAccess (err_message unreachable)), [''https://example.com/''])"
    using refused_first by blast
  from h retried thrown show ?thesis by simp
qed

text \<open>
  The claim as stated (a thrown error on the HTTPS attempt is retried over HTTP) fails
  on a site that refuses the secure connection and serves the page over plain HTTP:
  one request is made, to the secure address, and the answer is 500.
\<close>

theorem https_error_counterexample:
  "startsWith ''https://example.com/'' ''https://'' \<and>
   fetchWithRedirects insecureSite ''https://example.com/'' 5 =
     (Inl unreachable, [''https://example.com/'']) \<and>
   fst (fetchWithRedirects insecureSite ''http://example.com/'' 5) =
     Inr \<lparr>rs_url = ''http://example.com/'', rs_reply = okReply insecureHtml\<rparr> \<and>
   rs_ok \<lparr>rs_url = ''http://example.com/'', rs_reply = okReply insecureHtml\<rparr> \<and>
   fetchPage insecureSite ''https://example.com/'' =
     (Inl (failedToAccess ''connect ECONNREFUSED''), [''https://example.com/'']) \<and>
   analyzeUrl insecureSite ''https://example.com/'' =
     Error500 (failedToAccess ''connect ECONNREFUSED'') None"
proof -
  have first: "fetchWithRedirects insecureSite ''https://example.com/'' 5 =
     (Inl unreachable, [''https://example.com/''])"
    by (rule refused_first)
  have second: "fetchWithRedirects insecureSite ''http://example.com/'' 5 =
     (Inr \<lparr>rs_url = ''http://example.com/'', rs_reply = okReply insecureHtml\<rparr>,
      [''http://example.com/'', ''http://example.com/''])"
    by (rule insecure_fetch)
  have page: "fetchPage insecureSite ''https://example.com/'' =
     (Inl (failedToAccess ''connect ECONNREFUSED''), [''https://example.com/''])"
    by (simp add: fetchPage_def first unreachable_def)
  have "trim ''https://example.com/'' = ''https://example.com/''"
    by (simp add: trim_def is_ws_def)
  moreover have "parse_url insecureSite ''https://example.com/'' \<noteq> None"
    by (simp add: insecureSite_def siteWorld_def parse_example)
  ultimately have "analyzeUrl insecureSite ''https://example.com/'' =
     Error500 (failedToAccess ''connect ECONNREFUSED'') None"
    by (auto simp: analyzeUrl_def Let_def page)
  then show ?thesis
    using first second page by (simp add: rs_ok_def okReply_def)
qed

end
